theory Spec2Isabelle
  imports Main "HOL-Library.Word"
begin

unbundle bit_operations_syntax

section \<open>The int4 GEMM operator: kernel.py\<close>

text \<open>
  A shallow embedding of \<^verbatim>\<open>torchbenchmark/operators/int4_gemm/kernel.py\<close>: the tile
  scheduler, the address arithmetic and the masks of \<^verbatim>\<open>matmul_kernel\<close>, the host
  driver \<^verbatim>\<open>matmul\<close> and the weight packer \<^verbatim>\<open>pack_2xint4\<close>.

  Sizes, program ids, tile indices and the offsets \<open>pid_m * BLOCK_SIZE_M + i\<close> are
  natural numbers; on them \<open>div\<close> and \<open>mod\<close> are the kernel's \<^verbatim>\<open>//\<close> and
  \<^verbatim>\<open>%\<close>. They are the kernel's 32-bit values as long as \<open>M + BLOCK_SIZE_M\<close>,
  \<open>N + BLOCK_SIZE_N\<close> and \<open>K + BLOCK_SIZE_K\<close> do not exceed \<open>2 ^ 31\<close>, which the
  theorems on addresses assume. Pointers and strides are integers counted in elements.
  The products and sums that turn offsets into addresses (lines 105, 106, 144, 145 and
  152) are computed in the width Triton gives them, with wrap-around.
\<close>

subsection \<open>Block configurations\<close>

text \<open>\<^verbatim>\<open>triton.cdiv(x, y)\<close> is \<^verbatim>\<open>(x + y - 1) // y\<close>.\<close>

definition cdiv :: "nat \<Rightarrow> nat \<Rightarrow> nat" where
  "cdiv x y = (x + y - 1) div y"

record config =
  BLOCK_SIZE_M :: nat
  BLOCK_SIZE_N :: nat
  BLOCK_SIZE_K :: nat
  GROUP_SIZE_M :: nat
  num_stages :: nat
  num_warps :: nat

text \<open>
  The module binds \<^verbatim>\<open>AUTOTUNE_CONFIGS\<close> twice (lines 9 and 32); the decorator of
  \<^verbatim>\<open>matmul_kernel\<close> sees the second binding, a list of one configuration.
\<close>

definition AUTOTUNE_CONFIGS :: "config list" where
  "AUTOTUNE_CONFIGS =
     [\<lparr>BLOCK_SIZE_M = 128, BLOCK_SIZE_N = 256, BLOCK_SIZE_K = 64, GROUP_SIZE_M = 8,
       num_stages = 3, num_warps = 8\<rparr>]"

subsection \<open>Tile scheduler (kernel.py, lines 79 to 87)\<close>

text \<open>
  The grouped ordering that maps the program id \<^verbatim>\<open>pid\<close> to the block
  \<open>(pid_m, pid_n)\<close> of C it computes. The difference \<^verbatim>\<open>num_pid_m - first_pid_m\<close> is
  positive for every program id of the grid (lemma \<open>first_pid_m_less\<close>), so the
  truncating subtraction of natural numbers is the kernel's subtraction there.
\<close>

definition tile_of :: "nat \<Rightarrow> nat \<Rightarrow> nat \<Rightarrow> nat \<Rightarrow> nat \<times> nat" where
  "tile_of num_pid_m num_pid_n GROUP_M pid =
     (let num_pid_in_group = GROUP_M * num_pid_n;
          group_id = pid div num_pid_in_group;
          first_pid_m = group_id * GROUP_M;
          group_size_m = min (num_pid_m - first_pid_m) GROUP_M;
          pid_m = first_pid_m + (pid mod group_size_m);
          pid_n = (pid mod num_pid_in_group) div group_size_m
      in (pid_m, pid_n))"

definition program_tile :: "nat \<Rightarrow> nat \<Rightarrow> config \<Rightarrow> nat \<Rightarrow> nat \<times> nat" where
  "program_tile M N cfg pid =
     (let num_pid_m = cdiv M (BLOCK_SIZE_M cfg);
          num_pid_n = cdiv N (BLOCK_SIZE_N cfg)
      in tile_of num_pid_m num_pid_n (GROUP_SIZE_M cfg) pid)"

text \<open>The launch grid of \<^verbatim>\<open>matmul\<close> (lines 165 to 167).\<close>

definition grid :: "nat \<Rightarrow> nat \<Rightarrow> config \<Rightarrow> nat" where
  "grid M N META = cdiv M (BLOCK_SIZE_M META) * cdiv N (BLOCK_SIZE_N META)"


subsection \<open>Kernel arguments\<close>

text \<open>
  The run-time arguments of \<^verbatim>\<open>matmul_kernel\<close> (lines 41 to 62) and the
  \<^verbatim>\<open>constexpr\<close> flag \<^verbatim>\<open>USE_INT8_WEIGHT\<close>; the block sizes travel in the
  \<open>config\<close>. The fields \<open>dim_M\<close>, \<open>dim_N\<close> and \<open>dim_K\<close> are the arguments
  \<^verbatim>\<open>M\<close>, \<^verbatim>\<open>N\<close> and \<^verbatim>\<open>K\<close>.
\<close>

record kernel_args =
  a_ptr :: int
  b_ptr :: int
  c_ptr :: int
  dim_M :: nat
  dim_N :: nat
  dim_K :: nat
  stride_am :: int
  stride_ak :: int
  stride_bk :: int
  stride_bn :: int
  stride_cm :: int
  stride_cn :: int
  USE_INT8_WEIGHT :: bool

text \<open>\<^verbatim>\<open>tl.arange(0, n)\<close>.\<close>

definition arange :: "nat \<Rightarrow> nat list" where
  "arange n = [0..<n]"

definition pid_m :: "kernel_args \<Rightarrow> config \<Rightarrow> nat \<Rightarrow> nat" where
  "pid_m ka cfg pid = fst (program_tile (dim_M ka) (dim_N ka) cfg pid)"

definition pid_n :: "kernel_args \<Rightarrow> config \<Rightarrow> nat \<Rightarrow> nat" where
  "pid_n ka cfg pid = snd (program_tile (dim_M ka) (dim_N ka) cfg pid)"

subsection \<open>Integer arithmetic of the kernel\<close>

text \<open>
  Triton passes an integer argument of a launch as \<^verbatim>\<open>int32\<close> when its value fits and as
  \<^verbatim>\<open>int64\<close> otherwise; \<^verbatim>\<open>tl.arange\<close> and the block sizes are \<^verbatim>\<open>int32\<close>. A product
  or a sum has the width of its wider operand and wraps around in two's complement.
  \<open>wrap w v\<close> is \<open>v\<close> wrapped to \<open>w\<close> bits, and \<open>scaled off s\<close> is the product of
  an \<^verbatim>\<open>int32\<close> value \<open>off\<close> and an integer argument \<open>s\<close>. Adding an offset to a
  pointer is 64-bit address arithmetic and is not wrapped.
\<close>

definition int_bits :: "int \<Rightarrow> nat" where
  "int_bits v = (if - (2 ^ 31) \<le> v \<and> v < 2 ^ 31 then 32 else 64)"

definition wrap :: "nat \<Rightarrow> int \<Rightarrow> int" where
  "wrap w v = signed_take_bit (w - 1) v"

definition scaled :: "int \<Rightarrow> int \<Rightarrow> int" where
  "scaled off s = wrap (int_bits s) (off * s)"

subsection \<open>Offsets and pointer blocks (lines 96 to 106)\<close>

definition offs_am :: "kernel_args \<Rightarrow> config \<Rightarrow> nat \<Rightarrow> nat list" where
  "offs_am ka cfg pid =
     map (\<lambda>i. (pid_m ka cfg pid * BLOCK_SIZE_M cfg + i) mod dim_M ka) (arange (BLOCK_SIZE_M cfg))"

definition offs_bn :: "kernel_args \<Rightarrow> config \<Rightarrow> nat \<Rightarrow> nat list" where
  "offs_bn ka cfg pid =
     map (\<lambda>i. (pid_n ka cfg pid * BLOCK_SIZE_N cfg + i) mod dim_N ka) (arange (BLOCK_SIZE_N cfg))"

definition offs_ak :: "config \<Rightarrow> nat list" where
  "offs_ak cfg = arange (BLOCK_SIZE_K cfg)"

definition offs_bk :: "config \<Rightarrow> nat list" where
  "offs_bk cfg = arange (BLOCK_SIZE_K cfg)"

text \<open>
  A block of pointers is a list of rows. \<^verbatim>\<open>b_ptrs\<close> has one row for each entry of
  \<^verbatim>\<open>offs_bn\<close> and one column for each entry of \<^verbatim>\<open>offs_bk\<close>; \<^verbatim>\<open>a_ptrs\<close> has
  one row for each entry of \<^verbatim>\<open>offs_ak\<close> and one column for each entry of
  \<^verbatim>\<open>offs_am\<close>. In both, the two products are added as integers before the sum is
  added to the pointer (lines 105 and 106).
\<close>

definition b_ptrs0 :: "kernel_args \<Rightarrow> config \<Rightarrow> nat \<Rightarrow> int list list" where
  "b_ptrs0 ka cfg pid =
     map (\<lambda>n. map (\<lambda>k. b_ptr ka
                         + wrap (max (int_bits (stride_bk ka)) (int_bits (stride_bn ka)))
                             (scaled (int k) (stride_bk ka) + scaled (int n) (stride_bn ka)))
                 (offs_bk cfg))
       (offs_bn ka cfg pid)"

definition a_ptrs0 :: "kernel_args \<Rightarrow> config \<Rightarrow> nat \<Rightarrow> int list list" where
  "a_ptrs0 ka cfg pid =
     map (\<lambda>k. map (\<lambda>m. a_ptr ka
                         + wrap (max (int_bits (stride_am ka)) (int_bits (stride_ak ka)))
                             (scaled (int m) (stride_am ka) + scaled (int k) (stride_ak ka)))
                 (offs_am ka cfg pid))
       (offs_ak cfg)"

subsection \<open>The reduction loop (lines 115 to 145)\<close>

text \<open>
  The model follows which addresses the loop reads, not the values: the products and
  sums of \<^verbatim>\<open>tl.dot\<close> are floating-point arithmetic. The state of the loop holds the
  two pointer blocks and the addresses read so far.
\<close>

record loop_state =
  a_ptrs :: "int list list"
  b_ptrs :: "int list list"
  a_loads :: "int list"
  b_loads :: "int list"

text \<open>
  \<^verbatim>\<open>tl.load(ptrs, mask=...)\<close> reads the addresses whose mask entry is true, and
  \<^verbatim>\<open>tl.load(ptrs)\<close> reads every address of the block.
\<close>

definition masked :: "int list list \<Rightarrow> bool list list \<Rightarrow> int list" where
  "masked ptrs msk = map fst (filter snd (zip (concat ptrs) (concat msk)))"

definition a_mask :: "kernel_args \<Rightarrow> config \<Rightarrow> nat \<Rightarrow> bool list list" where
  "a_mask ka cfg k =
     map (\<lambda>kk. replicate (BLOCK_SIZE_M cfg) (int kk < int (dim_K ka) - int k * int (BLOCK_SIZE_K cfg)))
       (offs_ak cfg)"

definition k_step :: "kernel_args \<Rightarrow> config \<Rightarrow> nat \<Rightarrow> loop_state \<Rightarrow> loop_state" where
  "k_step ka cfg k st =
     \<lparr>a_ptrs = map (map (\<lambda>p. p + scaled (int (BLOCK_SIZE_K cfg)) (stride_ak ka))) (a_ptrs st),
      b_ptrs = map (map (\<lambda>p. p + scaled (int (BLOCK_SIZE_K cfg)) (stride_bk ka))) (b_ptrs st),
      a_loads = a_loads st @ masked (a_ptrs st) (a_mask ka cfg k),
      b_loads = b_loads st @ concat (b_ptrs st)\<rparr>"

definition k_loop :: "kernel_args \<Rightarrow> config \<Rightarrow> nat \<Rightarrow> loop_state" where
  "k_loop ka cfg pid =
     fold (k_step ka cfg) [0..<cdiv (dim_K ka) (BLOCK_SIZE_K cfg)]
       \<lparr>a_ptrs = a_ptrs0 ka cfg pid, b_ptrs = b_ptrs0 ka cfg pid, a_loads = [], b_loads = []\<rparr>"

subsection \<open>The store (lines 149 to 155)\<close>

text \<open>
  Line 152 adds the two products to the pointer one after the other:
  \<^verbatim>\<open>c_ptr + stride_cm * offs_cm[None, :] + stride_cn * offs_cn[:, None]\<close>.
\<close>

definition offs_cm :: "kernel_args \<Rightarrow> config \<Rightarrow> nat \<Rightarrow> nat list" where
  "offs_cm ka cfg pid =
     map (\<lambda>i. pid_m ka cfg pid * BLOCK_SIZE_M cfg + i) (arange (BLOCK_SIZE_M cfg))"

definition offs_cn :: "kernel_args \<Rightarrow> config \<Rightarrow> nat \<Rightarrow> nat list" where
  "offs_cn ka cfg pid =
     map (\<lambda>i. pid_n ka cfg pid * BLOCK_SIZE_N cfg + i) (arange (BLOCK_SIZE_N cfg))"

definition c_ptrs :: "kernel_args \<Rightarrow> config \<Rightarrow> nat \<Rightarrow> int list list" where
  "c_ptrs ka cfg pid =
     map (\<lambda>n. map (\<lambda>m. c_ptr ka + scaled (int m) (stride_cm ka) + scaled (int n) (stride_cn ka))
                 (offs_cm ka cfg pid))
       (offs_cn ka cfg pid)"

definition c_mask :: "kernel_args \<Rightarrow> config \<Rightarrow> nat \<Rightarrow> bool list list" where
  "c_mask ka cfg pid =
     map (\<lambda>n. map (\<lambda>m. m < dim_M ka \<and> n < dim_N ka) (offs_cm ka cfg pid)) (offs_cn ka cfg pid)"

text \<open>\<^verbatim>\<open>tl.store(c_ptrs, c, mask=c_mask)\<close> writes the addresses whose mask entry is true.\<close>

definition c_stores :: "kernel_args \<Rightarrow> config \<Rightarrow> nat \<Rightarrow> int list" where
  "c_stores ka cfg pid = masked (c_ptrs ka cfg pid) (c_mask ka cfg pid)"

subsection \<open>One kernel instance and one dispatch\<close>

datatype error =
  AssertionError string
| DeviceAssertion
| RuntimeError string
| OSError string

record footprint =
  reads_a :: "int list"
  reads_b :: "int list"
  writes_c :: "int list"

text \<open>
  \<^verbatim>\<open>tl.device_assert\<close> is Triton's; it is the first statement of the kernel body, so
  every instance of a dispatch evaluates it. Triton documents that it needs the environment
  variable \<^verbatim>\<open>TRITON_DEBUG\<close> set to a value besides \<^verbatim>\<open>0\<close> in order to have any
  effect: the parameter \<open>device_asserts\<close> says whether it is in effect.
\<close>

definition matmul_kernel :: "bool \<Rightarrow> kernel_args \<Rightarrow> config \<Rightarrow> nat \<Rightarrow> error + footprint" where
  "matmul_kernel device_asserts ka cfg pid =
     (if device_asserts \<and> dim_K ka mod BLOCK_SIZE_K cfg \<noteq> 0 then Inl DeviceAssertion
      else let st = k_loop ka cfg pid
           in Inr \<lparr>reads_a = a_loads st, reads_b = b_loads st, writes_c = c_stores ka cfg pid\<rparr>)"

text \<open>A dispatch on a grid of \<open>n\<close> programs runs the instances \<open>0, \<dots>, n - 1\<close>.\<close>

definition dispatch :: "bool \<Rightarrow> nat \<Rightarrow> kernel_args \<Rightarrow> config \<Rightarrow> (error + footprint) list" where
  "dispatch device_asserts n ka cfg = map (matmul_kernel device_asserts ka cfg) [0..<n]"

subsection \<open>Dequantization inside the loop (lines 137 to 140)\<close>

text \<open>
  A loaded block of \<^verbatim>\<open>b\<close> is a block of \<^verbatim>\<open>int8\<close> or of \<^verbatim>\<open>bfloat16\<close> elements.
  The conversion of one \<^verbatim>\<open>int8\<close> to \<^verbatim>\<open>bfloat16\<close> is the parameter \<open>cvt\<close>. The
  lines 119 to 135 of the kernel, which shift the nibbles out of each byte, are the text
  of a string literal and are not executed.
\<close>

datatype 'f block = Int8 "8 word list list" | Bfloat16 "'f list list"

definition to_bfloat16 :: "(8 word \<Rightarrow> 'f) \<Rightarrow> 'f block \<Rightarrow> 'f block" where
  "to_bfloat16 cvt b = (case b of Int8 x \<Rightarrow> Bfloat16 (map (map cvt) x) | Bfloat16 x \<Rightarrow> Bfloat16 x)"

definition dequantize :: "(8 word \<Rightarrow> 'f) \<Rightarrow> bool \<Rightarrow> 'f block \<Rightarrow> 'f block" where
  "dequantize cvt use_int8_weight b = (if use_int8_weight then to_bfloat16 cvt b else b)"

definition block_rows :: "'f block \<Rightarrow> nat" where
  "block_rows b = (case b of Int8 x \<Rightarrow> length x | Bfloat16 x \<Rightarrow> length x)"

definition block_row_lengths :: "'f block \<Rightarrow> nat list" where
  "block_row_lengths b = (case b of Int8 x \<Rightarrow> map length x | Bfloat16 x \<Rightarrow> map length x)"

subsection \<open>Weight packer (lines 209 to 212)\<close>

text \<open>
  A two-dimensional tensor with its elements in row-major order. The packer receives a
  tensor of integers; \<^verbatim>\<open>.to(torch.int8)\<close> keeps the low eight bits of each.
  \<^verbatim>\<open>reshape(K // 2, 2, N)\<close> raises unless the tensor has \<open>(K div 2) * 2 * N\<close>
  elements; element \<open>(i, j, n)\<close> of the reshaped tensor is element
  \<open>(i * 2 + j) * N + n\<close> of the row-major order, and \<^verbatim>\<open>permute(1, 0, 2)\<close> makes it
  element \<open>(j, i, n)\<close>. \<open>lane t8 K2 N j\<close> is \<^verbatim>\<open>t[j]\<close> after the permutation.
\<close>

record 'a matrix =
  rows :: nat
  cols :: nat
  elems :: "'a list"

definition at :: "'a matrix \<Rightarrow> nat \<Rightarrow> nat \<Rightarrow> 'a" where
  "at t i n = elems t ! (i * cols t + n)"

definition to_int8 :: "int \<Rightarrow> 8 word" where
  "to_int8 v = word_of_int v"

definition lane :: "'a list \<Rightarrow> nat \<Rightarrow> nat \<Rightarrow> nat \<Rightarrow> 'a list" where
  "lane t8 K2 N j = concat (map (\<lambda>i. map (\<lambda>n. t8 ! ((i * 2 + j) * N + n)) [0..<N]) [0..<K2])"

definition pack_2xint4 :: "int matrix \<Rightarrow> error + 8 word matrix" where
  "pack_2xint4 t =
     (let t8 = map to_int8 (elems t);
          K2 = rows t div 2;
          N = cols t
      in if K2 * 2 * N \<noteq> length t8 then Inl (RuntimeError ''shape is invalid for input size'')
         else Inr \<lparr>rows = K2, cols = N,
                   elems = map2 (\<lambda>t0 t1. (t0 AND 0xF) OR (push_bit 4 t1))
                             (lane t8 K2 N 0) (lane t8 K2 N 1)\<rparr>)"

text \<open>
  Modelled from the spec: the unpacking of a packed tensor, which no function of the
  module performs (section 4.3, step 3c, and the disabled lines 125 to 134 of the kernel).
  The low nibble of a byte is shifted left by four and arithmetically right by four; the
  high nibble is the byte shifted arithmetically right by four, as \<^verbatim>\<open>>>\<close> on
  \<^verbatim>\<open>int8\<close> does; row \<open>i\<close> of the packed tensor gives row \<open>2 * i\<close> (low nibbles) and
  row \<open>2 * i + 1\<close> (high nibbles).
\<close>

definition nibble_lo :: "8 word \<Rightarrow> 8 word" where
  "nibble_lo b = signed_drop_bit 4 (push_bit 4 b)"

definition nibble_hi :: "8 word \<Rightarrow> 8 word" where
  "nibble_hi b = signed_drop_bit 4 b"

definition unpack_2xint4 :: "8 word matrix \<Rightarrow> 8 word matrix" where
  "unpack_2xint4 p =
     \<lparr>rows = 2 * rows p, cols = cols p,
      elems = concat (map (\<lambda>i. map (\<lambda>n. nibble_lo (at p i n)) [0..<cols p]
                                @ map (\<lambda>n. nibble_hi (at p i n)) [0..<cols p])
                        [0..<rows p])\<rparr>"

text \<open>
  Modelled from the spec: the dequantization of a packed slab as section 4.3, step 3c,
  words it: both lanes of every byte, widened, in the original row order.
\<close>

definition spec_dequantize_packed :: "(8 word \<Rightarrow> 'f) \<Rightarrow> 8 word list list \<Rightarrow> 'f block" where
  "spec_dequantize_packed cvt slab =
     Bfloat16 (concat (map (\<lambda>r. [map (\<lambda>b. cvt (nibble_lo b)) r, map (\<lambda>b. cvt (nibble_hi b)) r]) slab))"

subsection \<open>Host driver (lines 158 to 206)\<close>

text \<open>
  What \<^verbatim>\<open>matmul\<close> reads of a tensor: its address, its shape and its strides.
  \<^verbatim>\<open>is_contiguous\<close> and the strides of \<^verbatim>\<open>torch.empty\<close> are PyTorch's.
\<close>

record tensor =
  data_ptr :: int
  shape0 :: nat
  shape1 :: nat
  stride0 :: int
  stride1 :: int

definition is_contiguous :: "tensor \<Rightarrow> bool" where
  "is_contiguous t \<longleftrightarrow>
     shape0 t * shape1 t = 0 \<or>
     ((shape1 t = 1 \<or> stride1 t = 1) \<and> (shape0 t = 1 \<or> stride0 t = int (shape1 t)))"

text \<open>
  The environment of a call: the address of the buffer that \<^verbatim>\<open>torch.empty\<close> returns,
  the files that \<^verbatim>\<open>triton.compiler.compile\<close> can load and the files that
  \<^verbatim>\<open>open(path, "w")\<close> can create.
\<close>

record env =
  empty_ptr :: int
  loadable :: "string \<Rightarrow> bool"
  writable :: "string \<Rightarrow> bool"

definition torch_empty :: "env \<Rightarrow> nat \<Rightarrow> nat \<Rightarrow> tensor" where
  "torch_empty e m n =
     \<lparr>data_ptr = empty_ptr e, shape0 = m, shape1 = n, stride0 = int (max n 1), stride1 = 1\<rparr>"

datatype arg = TensorArg tensor | IntArg int

text \<open>The effects of a call, in the order in which they happen.\<close>

datatype event =
  Empty tensor
| Compile string
| LaunchCompiled string "nat \<times> nat \<times> nat" "arg list"
| LaunchJit nat config kernel_args
| Write string

text \<open>With one configuration in its list the autotuner runs the kernel with that one.\<close>

definition autotuned :: "config list \<Rightarrow> config" where
  "autotuned configs = hd configs"

definition dump_path :: "bool \<Rightarrow> string \<Rightarrow> string" where
  "dump_path use_int16 ir =
     ''/home/dberard/local/scripts/triton/int8mm/'' @ (if use_int16 then ''int16'' else ''bf16'')
       @ ''.'' @ ir"

fun dump_asm :: "env \<Rightarrow> bool \<Rightarrow> string list \<Rightarrow> event list \<times> error option" where
  "dump_asm e use_int16 [] = ([], None)"
| "dump_asm e use_int16 (ir # irs) =
     (if writable e (dump_path use_int16 ir)
      then (case dump_asm e use_int16 irs of (evs, r) \<Rightarrow> (Write (dump_path use_int16 ir) # evs, r))
      else ([], Some (OSError (dump_path use_int16 ir))))"

definition int16_ttgir :: string where
  "int16_ttgir = ''/home/dberard/local/scripts/triton/int8mm/int16.ttgir''"

definition launch :: "env \<Rightarrow> tensor \<Rightarrow> tensor \<Rightarrow> tensor \<Rightarrow> bool \<Rightarrow> event list \<times> error option" where
  "launch e a b c use_int16 =
     (let M = shape0 a; K = shape1 a; N = shape1 b
      in if use_int16
         then if loadable e int16_ttgir
              then ([Compile int16_ttgir,
                     LaunchCompiled int16_ttgir (cdiv M 128 * cdiv N 256, 1, 1)
                       [TensorArg a, TensorArg b, TensorArg c,
                        IntArg (int M), IntArg (int N), IntArg (int K),
                        IntArg (stride0 a), IntArg (stride0 b), IntArg (stride0 c)]], None)
              else ([], Some (OSError int16_ttgir))
         else ([LaunchJit (grid M N (autotuned AUTOTUNE_CONFIGS)) (autotuned AUTOTUNE_CONFIGS)
                  \<lparr>a_ptr = data_ptr a, b_ptr = data_ptr b, c_ptr = data_ptr c,
                   dim_M = M, dim_N = N, dim_K = K,
                   stride_am = stride0 a, stride_ak = stride1 a,
                   stride_bk = stride0 b, stride_bn = stride1 b,
                   stride_cm = stride0 c, stride_cn = stride1 c,
                   USE_INT8_WEIGHT = use_int16\<rparr>], None))"

definition matmul :: "env \<Rightarrow> tensor \<Rightarrow> tensor \<Rightarrow> bool \<Rightarrow> event list \<times> (error + tensor)" where
  "matmul e a b use_int16 =
     (if \<not> is_contiguous a then ([], Inl (AssertionError ''Matrix A must be contiguous''))
      else let c = torch_empty e (shape0 a) (shape1 b)
           in case launch e a b c use_int16 of
                (evs, Some err) \<Rightarrow> (Empty c # evs, Inl err)
              | (evs, None) \<Rightarrow>
                  if \<not> use_int16
                  then (case dump_asm e use_int16 [''ttir'', ''ttgir'', ''llir'', ''ptx''] of
                          (ws, Some err) \<Rightarrow> (Empty c # evs @ ws, Inl err)
                        | (ws, None) \<Rightarrow> (Empty c # evs @ ws, Inr c))
                  else (Empty c # evs, Inr c))"

subsection \<open>Cells of a tile and elements of the weight tensor\<close>

text \<open>
  The cells of C that belong to the tile of program \<open>pid\<close> and lie inside the
  \<open>M \<times> N\<close> output, the address of a cell of C, and the addresses of the elements of
  the \<open>K \<times> N\<close> weight tensor that the strides of \<^verbatim>\<open>b\<close> describe.
\<close>

definition tile_cells :: "kernel_args \<Rightarrow> config \<Rightarrow> nat \<Rightarrow> (nat \<times> nat) set" where
  "tile_cells ka cfg pid =
     {pid_m ka cfg pid * BLOCK_SIZE_M cfg ..<
        min (pid_m ka cfg pid * BLOCK_SIZE_M cfg + BLOCK_SIZE_M cfg) (dim_M ka)}
     \<times> {pid_n ka cfg pid * BLOCK_SIZE_N cfg ..<
        min (pid_n ka cfg pid * BLOCK_SIZE_N cfg + BLOCK_SIZE_N cfg) (dim_N ka)}"

definition cell_addr :: "kernel_args \<Rightarrow> nat \<times> nat \<Rightarrow> int" where
  "cell_addr ka cell = c_ptr ka + stride_cm ka * int (fst cell) + stride_cn ka * int (snd cell)"

definition b_elements :: "kernel_args \<Rightarrow> int set" where
  "b_elements ka =
     {b_ptr ka + int r * stride_bk ka + int c * stride_bn ka | r c. r < dim_K ka \<and> c < dim_N ka}"

subsection \<open>Example inputs\<close>

text \<open>
  A \<open>3 \<times> 4\<close> by \<open>4 \<times> 3\<close> product in blocks of two, whose last tile holds the one cell
  \<open>(2, 2)\<close>; a \<open>1 \<times> 1\<close> by \<open>1 \<times> 1\<close> product with \<open>K = 1\<close> and
  \<open>BLOCK_SIZE_K = 2\<close>; and, for \<^verbatim>\<open>matmul\<close>, a contiguous \<open>2 \<times> 64\<close> tensor with a
  \<open>64 \<times> 5\<close> tensor and with a \<open>3 \<times> 5\<close> tensor whose rows are too few, a contiguous
  \<open>2 \<times> 4\<close> tensor with a \<open>4 \<times> 5\<close> tensor, and an environment where every file can
  be loaded and written.
\<close>

definition example_config :: config where
  "example_config = \<lparr>BLOCK_SIZE_M = 2, BLOCK_SIZE_N = 2, BLOCK_SIZE_K = 2, GROUP_SIZE_M = 2,
                      num_stages = 1, num_warps = 1\<rparr>"

definition example_args :: kernel_args where
  "example_args = \<lparr>a_ptr = 1000, b_ptr = 2000, c_ptr = 3000, dim_M = 3, dim_N = 3, dim_K = 4,
                    stride_am = 4, stride_ak = 1, stride_bk = 3, stride_bn = 1,
                    stride_cm = 3, stride_cn = 1, USE_INT8_WEIGHT = False\<rparr>"

definition small_config :: config where
  "small_config = \<lparr>BLOCK_SIZE_M = 1, BLOCK_SIZE_N = 1, BLOCK_SIZE_K = 2, GROUP_SIZE_M = 1,
                    num_stages = 1, num_warps = 1\<rparr>"

definition small_args :: kernel_args where
  "small_args = \<lparr>a_ptr = 1000, b_ptr = 2000, c_ptr = 3000, dim_M = 1, dim_N = 1, dim_K = 1,
                  stride_am = 1, stride_ak = 1, stride_bk = 1, stride_bn = 1,
                  stride_cm = 1, stride_cn = 1, USE_INT8_WEIGHT = False\<rparr>"

definition example_env :: env where
  "example_env = \<lparr>empty_ptr = 5000, loadable = (\<lambda>path. True), writable = (\<lambda>path. True)\<rparr>"

definition example_a :: tensor where
  "example_a = \<lparr>data_ptr = 1000, shape0 = 2, shape1 = 64, stride0 = 64, stride1 = 1\<rparr>"

definition example_b :: tensor where
  "example_b = \<lparr>data_ptr = 2000, shape0 = 64, shape1 = 5, stride0 = 5, stride1 = 1\<rparr>"

definition short_b :: tensor where
  "short_b = \<lparr>data_ptr = 2000, shape0 = 3, shape1 = 5, stride0 = 5, stride1 = 1\<rparr>"

definition narrow_a :: tensor where
  "narrow_a = \<lparr>data_ptr = 1000, shape0 = 2, shape1 = 4, stride0 = 4, stride1 = 1\<rparr>"

definition narrow_b :: tensor where
  "narrow_b = \<lparr>data_ptr = 2000, shape0 = 4, shape1 = 5, stride0 = 5, stride1 = 1\<rparr>"

text \<open>
  Two launches that \<^verbatim>\<open>matmul\<close> makes on large tensors: a contiguous \<open>65537 \<times> 64\<close>
  tensor with a \<open>64 \<times> 32768\<close> tensor, whose output has \<open>2 ^ 31 + 32768\<close> elements, and a
  contiguous \<open>1 \<times> 64\<close> tensor with a \<open>64 \<times> 33554688\<close> tensor, whose weight tensor has
  \<open>2 ^ 31 + 16384\<close> elements. The three buffers lie \<open>10 ^ 10\<close> elements apart.
\<close>

definition far_env :: env where
  "far_env = \<lparr>empty_ptr = 30000000000, loadable = (\<lambda>path. True), writable = (\<lambda>path. True)\<rparr>"

definition tall_a :: tensor where
  "tall_a = \<lparr>data_ptr = 10000000000, shape0 = 65537, shape1 = 64, stride0 = 64, stride1 = 1\<rparr>"

definition wide_b :: tensor where
  "wide_b = \<lparr>data_ptr = 20000000000, shape0 = 64, shape1 = 32768, stride0 = 32768, stride1 = 1\<rparr>"

definition tall_args :: kernel_args where
  "tall_args = \<lparr>a_ptr = 10000000000, b_ptr = 20000000000, c_ptr = 30000000000,
                 dim_M = 65537, dim_N = 32768, dim_K = 64,
                 stride_am = 64, stride_ak = 1, stride_bk = 32768, stride_bn = 1,
                 stride_cm = 32768, stride_cn = 1, USE_INT8_WEIGHT = False\<rparr>"

definition row_a :: tensor where
  "row_a = \<lparr>data_ptr = 10000000000, shape0 = 1, shape1 = 64, stride0 = 64, stride1 = 1\<rparr>"

definition long_b :: tensor where
  "long_b = \<lparr>data_ptr = 20000000000, shape0 = 64, shape1 = 33554688,
              stride0 = 33554688, stride1 = 1\<rparr>"

definition long_args :: kernel_args where
  "long_args = \<lparr>a_ptr = 10000000000, b_ptr = 20000000000, c_ptr = 30000000000,
                 dim_M = 1, dim_N = 33554688, dim_K = 64,
                 stride_am = 64, stride_ak = 1, stride_bk = 33554688, stride_bn = 1,
                 stride_cm = 33554688, stride_cn = 1, USE_INT8_WEIGHT = False\<rparr>"

section \<open>The tile scheduler is a bijection\<close>

text \<open>
  Every program id of the grid lies in a group whose first row of tiles exists, so the
  size of its group is positive.
\<close>

lemma first_pid_m_less:
  fixes pid :: nat
  assumes "pid < num_pid_m * num_pid_n"
  shows "pid div (GROUP_M * num_pid_n) * GROUP_M < num_pid_m"
proof -
  let ?g = "pid div (GROUP_M * num_pid_n)"
  have "(?g * GROUP_M) * num_pid_n = ?g * (GROUP_M * num_pid_n)"
    by (rule mult.assoc)
  also have "\<dots> \<le> pid"
    by (rule div_times_less_eq_dividend)
  also note assms
  finally show ?thesis
    by (simp only: mult_less_cancel2)
qed

lemma group_size_pos:
  fixes pid :: nat
  assumes "pid < num_pid_m * num_pid_n" "0 < GROUP_M"
  shows "0 < min (num_pid_m - pid div (GROUP_M * num_pid_n) * GROUP_M) GROUP_M"
  using first_pid_m_less[OF assms(1), of GROUP_M] assms(2) by simp

lemma in_group_bound:
  fixes pid :: nat
  assumes "pid < num_pid_m * num_pid_n" "0 < GROUP_M"
  shows "pid mod (GROUP_M * num_pid_n)
           < min (num_pid_m - pid div (GROUP_M * num_pid_n) * GROUP_M) GROUP_M * num_pid_n"
proof -
  let ?P = "GROUP_M * num_pid_n"
  let ?g = "pid div ?P"
  have n: "0 < num_pid_n" using assms(1) by (cases num_pid_n) auto
  have P: "0 < ?P" using n assms(2) by simp
  have r1: "pid mod ?P < GROUP_M * num_pid_n" using P by simp
  have "?g * ?P + pid mod ?P = pid" by (rule div_mult_mod_eq)
  with assms(1) have "?g * GROUP_M * num_pid_n + pid mod ?P < num_pid_m * num_pid_n"
    by (simp add: mult.assoc)
  then have "pid mod ?P < num_pid_m * num_pid_n - ?g * GROUP_M * num_pid_n"
    by linarith
  then have r2: "pid mod ?P < (num_pid_m - ?g * GROUP_M) * num_pid_n"
    by (simp add: diff_mult_distrib)
  show ?thesis
  proof (cases "num_pid_m - ?g * GROUP_M \<le> GROUP_M")
    case True then show ?thesis using r2 by (simp add: min_absorb1)
  next
    case False then show ?thesis using r1 by (simp add: min_absorb2)
  qed
qed

lemma tile_of_in_range:
  fixes pid :: nat
  assumes "pid < num_pid_m * num_pid_n" "0 < GROUP_M"
  shows "fst (tile_of num_pid_m num_pid_n GROUP_M pid) < num_pid_m"
    and "snd (tile_of num_pid_m num_pid_n GROUP_M pid) < num_pid_n"
proof -
  let ?P = "GROUP_M * num_pid_n"
  let ?f = "pid div ?P * GROUP_M"
  let ?s = "min (num_pid_m - ?f) GROUP_M"
  have f: "?f < num_pid_m" by (rule first_pid_m_less[OF assms(1)])
  have s: "0 < ?s" by (rule group_size_pos[OF assms])
  have "pid mod ?s < ?s" using s by (rule mod_less_divisor)
  also have "?s \<le> num_pid_m - ?f" by simp
  finally have "?f + pid mod ?s < num_pid_m" using f by linarith
  then show "fst (tile_of num_pid_m num_pid_n GROUP_M pid) < num_pid_m"
    by (simp add: tile_of_def Let_def)
  have "pid mod ?P < ?s * num_pid_n" by (rule in_group_bound[OF assms])
  then have "pid mod ?P div ?s < num_pid_n"
    using s by (simp add: less_mult_imp_div_less mult.commute)
  then show "snd (tile_of num_pid_m num_pid_n GROUP_M pid) < num_pid_n"
    by (simp add: tile_of_def Let_def)
qed

text \<open>
  Two program ids of the grid with the same tile are equal: the row of the tile fixes the
  group, and inside the group the id is fixed by its remainder and its quotient by the
  size of the group.
\<close>

lemma mod_add_left_cancel_nat:
  fixes a b c s :: nat
  assumes "(c + a) mod s = (c + b) mod s"
  shows "a mod s = b mod s"
proof -
  have "int (c + a) mod int s = int (c + b) mod int s"
    using assms by (simp only: zmod_int [symmetric])
  then have "int s dvd (int (c + a) - int (c + b))"
    by (simp only: mod_eq_dvd_iff)
  moreover have "int (c + a) - int (c + b) = int a - int b" by simp
  ultimately have "int s dvd (int a - int b)" by (simp only:)
  then have "int a mod int s = int b mod int s"
    by (simp only: mod_eq_dvd_iff)
  then show ?thesis
    by (simp only: zmod_int [symmetric] of_nat_eq_iff)
qed

lemma div_group_id:
  fixes x :: nat
  assumes "x < G"
  shows "(g * G + x) div G = g"
  using assms by simp

lemma tile_of_inj:
  fixes pid pid' :: nat
  assumes p: "pid < num_pid_m * num_pid_n" and p': "pid' < num_pid_m * num_pid_n"
    and G: "0 < GROUP_M"
    and eq: "tile_of num_pid_m num_pid_n GROUP_M pid = tile_of num_pid_m num_pid_n GROUP_M pid'"
  shows "pid = pid'"
proof -
  let ?P = "GROUP_M * num_pid_n"
  let ?g = "pid div ?P" and ?g' = "pid' div ?P"
  let ?s = "min (num_pid_m - ?g * GROUP_M) GROUP_M"
  let ?s' = "min (num_pid_m - ?g' * GROUP_M) GROUP_M"
  from eq have mn: "?g * GROUP_M + pid mod ?s = ?g' * GROUP_M + pid' mod ?s'
      \<and> pid mod ?P div ?s = pid' mod ?P div ?s'"
    unfolding tile_of_def Let_def prod.inject .
  from mn have m: "?g * GROUP_M + pid mod ?s = ?g' * GROUP_M + pid' mod ?s'" ..
  from mn have n: "pid mod ?P div ?s = pid' mod ?P div ?s'" ..
  have s: "0 < ?s" by (rule group_size_pos[OF p G])
  have s': "0 < ?s'" by (rule group_size_pos[OF p' G])
  have "pid mod ?s < ?s" using s by (rule mod_less_divisor)
  then have x: "pid mod ?s < GROUP_M" by simp
  have "pid' mod ?s' < ?s'" using s' by (rule mod_less_divisor)
  then have x': "pid' mod ?s' < GROUP_M" by simp
  have "?g = (?g * GROUP_M + pid mod ?s) div GROUP_M"
    by (rule div_group_id[OF x, symmetric])
  also have "\<dots> = (?g' * GROUP_M + pid' mod ?s') div GROUP_M"
    by (simp only: m)
  also have "\<dots> = ?g'"
    by (rule div_group_id[OF x'])
  finally have g: "?g = ?g'" .
  have ms: "pid mod ?s = pid' mod ?s"
    using m [unfolded g [symmetric]] by (rule add_left_imp_eq)
  have d: "?g * ?P + pid mod ?P = pid"
    by (rule div_mult_mod_eq)
  have d': "?g * ?P + pid' mod ?P = pid'"
    unfolding g by (rule div_mult_mod_eq)
  have "(?g * ?P + pid mod ?P) mod ?s = (?g * ?P + pid' mod ?P) mod ?s"
    unfolding d d' by (rule ms)
  then have rm: "pid mod ?P mod ?s = pid' mod ?P mod ?s"
    by (rule mod_add_left_cancel_nat)
  have rd: "pid mod ?P div ?s = pid' mod ?P div ?s"
    using n [unfolded g [symmetric]] .
  have "pid mod ?P = pid mod ?P div ?s * ?s + pid mod ?P mod ?s"
    by (rule div_mult_mod_eq [symmetric])
  also have "\<dots> = pid' mod ?P div ?s * ?s + pid' mod ?P mod ?s"
    by (simp only: rm rd)
  also have "\<dots> = pid' mod ?P"
    by (rule div_mult_mod_eq)
  finally have r: "pid mod ?P = pid' mod ?P" .
  have "pid = ?g * ?P + pid mod ?P" by (rule div_mult_mod_eq [symmetric])
  also have "\<dots> = ?g' * ?P + pid' mod ?P" unfolding r g ..
  also have "\<dots> = pid'" by (rule div_mult_mod_eq)
  finally show ?thesis .
qed

lemma tile_of_bij_betw:
  assumes "0 < GROUP_M"
  shows "bij_betw (tile_of num_pid_m num_pid_n GROUP_M) {0..<num_pid_m * num_pid_n}
           ({0..<num_pid_m} \<times> {0..<num_pid_n})"
proof -
  let ?f = "tile_of num_pid_m num_pid_n GROUP_M"
  let ?D = "{0..<num_pid_m * num_pid_n}"
  let ?T = "{0..<num_pid_m} \<times> {0..<num_pid_n}"
  have inj: "inj_on ?f ?D"
  proof (rule inj_onI)
    fix x y assume "x \<in> ?D" "y \<in> ?D" and e: "?f x = ?f y"
    then have "x < num_pid_m * num_pid_n" "y < num_pid_m * num_pid_n" by simp_all
    then show "x = y" using assms e by (rule tile_of_inj)
  qed
  have sub: "?f ` ?D \<subseteq> ?T"
  proof
    fix t assume "t \<in> ?f ` ?D"
    then obtain pid where pid: "pid < num_pid_m * num_pid_n" and t: "t = ?f pid" by auto
    show "t \<in> ?T"
      using tile_of_in_range[OF pid assms] by (simp add: t mem_Times_iff)
  qed
  have "card (?f ` ?D) = card ?D" using inj by (rule card_image)
  also have "\<dots> = card ?T" by simp
  finally have "?f ` ?D = ?T"
    using sub by (intro card_subset_eq) simp_all
  with inj show ?thesis by (rule bij_betw_imageI)
qed


text \<open>
  C2: for every \<open>M\<close>, \<open>N\<close> and block sizes, and every \<open>GROUP_SIZE_M > 0\<close>, the
  grouped mapping of the kernel is a bijection from the program ids
  \<open>0, \<dots>, cdiv M BLOCK_SIZE_M * cdiv N BLOCK_SIZE_N - 1\<close> of the launch grid onto the
  tiles \<open>[0, cdiv M BLOCK_SIZE_M) \<times> [0, cdiv N BLOCK_SIZE_N)\<close>: no tile is left out and
  none is computed twice, also when the last group is short.
\<close>

theorem tile_mapping_bijection:
  assumes "0 < GROUP_SIZE_M cfg"
  shows "bij_betw (program_tile M N cfg) {0..<grid M N cfg}
           ({0..<cdiv M (BLOCK_SIZE_M cfg)} \<times> {0..<cdiv N (BLOCK_SIZE_N cfg)})"
  unfolding program_tile_def grid_def Let_def
  using assms by (rule tile_of_bij_betw)

text \<open>
  The scenario of the spec: ten rows and four columns of tiles in groups of three, where
  the last group has one row.
\<close>

theorem tile_mapping_bijection_witness:
  "0 < GROUP_SIZE_M \<lparr>BLOCK_SIZE_M = 16, BLOCK_SIZE_N = 128, BLOCK_SIZE_K = 256,
                      GROUP_SIZE_M = 3, num_stages = 4, num_warps = 4\<rparr>
   \<and> bij_betw (program_tile 160 512 \<lparr>BLOCK_SIZE_M = 16, BLOCK_SIZE_N = 128, BLOCK_SIZE_K = 256,
                      GROUP_SIZE_M = 3, num_stages = 4, num_warps = 4\<rparr>)
         {0..<40} ({0..<10} \<times> {0..<4})"
  using tile_mapping_bijection [of "\<lparr>BLOCK_SIZE_M = 16, BLOCK_SIZE_N = 128, BLOCK_SIZE_K = 256,
                      GROUP_SIZE_M = 3, num_stages = 4, num_warps = 4\<rparr>" 160 512]
  by (simp add: grid_def cdiv_def)

section \<open>Arithmetic that does not wrap\<close>

text \<open>
  A non-negative value below \<open>2 ^ 31\<close> is unchanged by wrapping to 32 or to 64 bits. So
  the product of an offset and a non-negative stride is exact when the product of the
  largest offset and the stride is below \<open>2 ^ 31\<close>.
\<close>

lemma int_bits_ge: "32 \<le> int_bits v"
  by (simp add: int_bits_def)

lemma wrap_fits:
  assumes "32 \<le> w" "0 \<le> v" "v < 2 ^ 31"
  shows "wrap w v = v"
proof -
  have "(2::int) ^ 31 \<le> 2 ^ (w - 1)"
    using assms(1) by (intro power_increasing) simp_all
  with assms(2,3) have "- (2 ^ (w - 1)) \<le> v" "v < 2 ^ (w - 1)" by linarith+
  then show ?thesis
    unfolding wrap_def by (rule signed_take_bit_int_eq_self)
qed

lemma scaled_fits:
  assumes "0 \<le> off * s" "off * s < 2 ^ 31"
  shows "scaled off s = off * s"
  unfolding scaled_def using int_bits_ge assms by (rule wrap_fits)

lemma scaled_offset:
  assumes "m \<le> B" "0 \<le> s" "int B * s < 2 ^ 31"
  shows "scaled (int m) s = int m * s"
proof (rule scaled_fits)
  show "0 \<le> int m * s" using assms(2) by simp
  have "int m * s \<le> int B * s"
    using assms(1,2) by (intro mult_right_mono) simp_all
  with assms(3) show "int m * s < 2 ^ 31" by linarith
qed

section \<open>The store writes the in-bounds cells of the tile\<close>

text \<open>
  A masked access to a block of pointers touches the addresses whose mask entry is true.
  For the store these are the addresses of the cells of the tile that lie inside C.
\<close>

lemma zip_tables:
  "zip (concat (map (\<lambda>n. map (f n) ms) ns)) (concat (map (\<lambda>n. map (g n) ms) ns))
     = concat (map (\<lambda>n. map (\<lambda>m. (f n m, g n m)) ms) ns)"
  by (induction ns) (simp_all add: zip_map_map zip_same_conv_map)

lemma set_masked:
  "set (map fst (filter snd xs)) = {a. (a, True) \<in> set xs}"
  by (induction xs) auto

lemma set_masked_tables:
  "set (masked (map (\<lambda>n. map (f n) ms) ns) (map (\<lambda>n. map (P n) ms) ns))
     = {f n m | n m. n \<in> set ns \<and> m \<in> set ms \<and> P n m}"
  unfolding masked_def zip_tables set_masked by auto

lemma set_offs_cm:
  "set (offs_cm ka cfg pid)
     = {pid_m ka cfg pid * BLOCK_SIZE_M cfg ..< pid_m ka cfg pid * BLOCK_SIZE_M cfg + BLOCK_SIZE_M cfg}"
  unfolding offs_cm_def arange_def by (auto simp add: image_iff)

lemma set_offs_cn:
  "set (offs_cn ka cfg pid)
     = {pid_n ka cfg pid * BLOCK_SIZE_N cfg ..< pid_n ka cfg pid * BLOCK_SIZE_N cfg + BLOCK_SIZE_N cfg}"
  unfolding offs_cn_def arange_def by (auto simp add: image_iff)

lemma masked_cells_image:
  fixes A B :: "nat set"
  shows "{g m n | n m. n \<in> B \<and> m \<in> A \<and> (m < M \<and> n < N)}
           = (\<lambda>cell. g (fst cell) (snd cell)) ` ((A \<inter> {..<M}) \<times> (B \<inter> {..<N}))"
proof (intro set_eqI iffI)
  fix x assume "x \<in> {g m n | n m. n \<in> B \<and> m \<in> A \<and> (m < M \<and> n < N)}"
  then obtain m n where "x = g m n" "n \<in> B" "m \<in> A" "m < M" "n < N" by blast
  then have "(m, n) \<in> (A \<inter> {..<M}) \<times> (B \<inter> {..<N})" "x = g (fst (m, n)) (snd (m, n))"
    by simp_all
  then show "x \<in> (\<lambda>cell. g (fst cell) (snd cell)) ` ((A \<inter> {..<M}) \<times> (B \<inter> {..<N}))"
    by (rule image_eqI [rotated])
next
  fix x assume "x \<in> (\<lambda>cell. g (fst cell) (snd cell)) ` ((A \<inter> {..<M}) \<times> (B \<inter> {..<N}))"
  then obtain cell where "cell \<in> (A \<inter> {..<M}) \<times> (B \<inter> {..<N})" "x = g (fst cell) (snd cell)"
    by blast
  then show "x \<in> {g m n | n m. n \<in> B \<and> m \<in> A \<and> (m < M \<and> n < N)}"
    by (cases cell) auto
qed

lemma clip_interval: "{lo..<hi} \<inter> {..<M} = {lo..<min hi (M::nat)}"
  by auto

lemma set_c_stores_wrapped:
  "set (c_stores ka cfg pid)
     = (\<lambda>cell. c_ptr ka + scaled (int (fst cell)) (stride_cm ka)
                         + scaled (int (snd cell)) (stride_cn ka))
       ` tile_cells ka cfg pid"
proof -
  have "set (c_stores ka cfg pid)
          = {c_ptr ka + scaled (int m) (stride_cm ka) + scaled (int n) (stride_cn ka) | n m.
               n \<in> set (offs_cn ka cfg pid) \<and> m \<in> set (offs_cm ka cfg pid)
               \<and> (m < dim_M ka \<and> n < dim_N ka)}"
    unfolding c_stores_def c_ptrs_def c_mask_def by (rule set_masked_tables)
  also have "\<dots> = (\<lambda>cell. c_ptr ka + scaled (int (fst cell)) (stride_cm ka)
                                  + scaled (int (snd cell)) (stride_cn ka))
                     ` ((set (offs_cm ka cfg pid) \<inter> {..<dim_M ka})
                         \<times> (set (offs_cn ka cfg pid) \<inter> {..<dim_N ka}))"
    by (rule masked_cells_image)
  also have "\<dots> = (\<lambda>cell. c_ptr ka + scaled (int (fst cell)) (stride_cm ka)
                                  + scaled (int (snd cell)) (stride_cn ka))
                     ` tile_cells ka cfg pid"
    unfolding set_offs_cm set_offs_cn clip_interval tile_cells_def ..
  finally show ?thesis .
qed

lemma set_c_stores:
  assumes "0 \<le> stride_cm ka" "0 \<le> stride_cn ka"
    and "int (dim_M ka - 1) * stride_cm ka < 2 ^ 31"
    and "int (dim_N ka - 1) * stride_cn ka < 2 ^ 31"
  shows "set (c_stores ka cfg pid) = cell_addr ka ` tile_cells ka cfg pid"
proof -
  have "c_ptr ka + scaled (int (fst cell)) (stride_cm ka) + scaled (int (snd cell)) (stride_cn ka)
          = cell_addr ka cell"
    if "cell \<in> tile_cells ka cfg pid" for cell
  proof -
    from that have "fst cell < dim_M ka" "snd cell < dim_N ka"
      unfolding tile_cells_def by auto
    then have m: "fst cell \<le> dim_M ka - 1" and n: "snd cell \<le> dim_N ka - 1" by simp_all
    have "scaled (int (fst cell)) (stride_cm ka) = int (fst cell) * stride_cm ka"
      using m assms(1,3) by (rule scaled_offset)
    moreover have "scaled (int (snd cell)) (stride_cn ka) = int (snd cell) * stride_cn ka"
      using n assms(2,4) by (rule scaled_offset)
    ultimately show ?thesis by (simp add: cell_addr_def mult.commute)
  qed
  then show ?thesis
    unfolding set_c_stores_wrapped by (rule image_cong [OF refl])
qed

lemma contiguous_cell_in_buffer:
  fixes m n :: nat
  assumes "m < M" "n < N"
  shows "0 \<le> int N * int m + int n" "int N * int m + int n < int (M * N)"
proof -
  show "0 \<le> int N * int m + int n" by simp
  have "m * N + n < Suc m * N" using assms(2) by simp
  also have "\<dots> \<le> M * N" using assms(1) by (intro mult_le_mono1) simp
  finally have "N * m + n < M * N" by (simp add: mult.commute)
  then have "int (N * m + n) < int (M * N)" by (rule iffD2 [OF of_nat_less_iff])
  then show "int N * int m + int n < int (M * N)" by simp
qed

lemma cell_addr_ge:
  assumes "0 \<le> stride_cm ka" "0 \<le> stride_cn ka"
  shows "c_ptr ka \<le> cell_addr ka cell"
  using assms by (simp add: cell_addr_def)

text \<open>
  C7, as the code has it: every kernel instance of the grid writes exactly the in-bounds
  cells of its own tile, unless it fails the device assertion at its entry and writes
  nothing, provided the offsets the store computes fit in 32 bits: the strides of the
  output are not negative, \<open>stride_cm * (M - 1)\<close> and \<open>stride_cn * (N - 1)\<close> are below
  \<open>2 ^ 31\<close>, and \<open>M + BLOCK_SIZE_M\<close> and \<open>N + BLOCK_SIZE_N\<close> do not exceed \<open>2 ^ 31\<close>.
  The addresses written are then the addresses of the cells \<open>(m, n)\<close> with
  \<open>pid_m * BLOCK_SIZE_M \<le> m < pid_m * BLOCK_SIZE_M + BLOCK_SIZE_M\<close>,
  \<open>pid_n * BLOCK_SIZE_N \<le> n < pid_n * BLOCK_SIZE_N + BLOCK_SIZE_N\<close>, \<open>m < M\<close> and
  \<open>n < N\<close>: the mask \<open>(row < M) & (col < N)\<close> removes every other lane, the offsets
  of the store are not taken modulo \<open>M\<close> and \<open>N\<close>, no cell of another tile is written,
  and for the strides of the output that \<^verbatim>\<open>matmul\<close> allocates every address written lies
  in the buffer of \<open>M * N\<close> elements.
\<close>

theorem store_writes_own_tile:
  assumes "pid < grid (dim_M ka) (dim_N ka) cfg"
    and "dim_M ka + BLOCK_SIZE_M cfg \<le> 2 ^ 31" and "dim_N ka + BLOCK_SIZE_N cfg \<le> 2 ^ 31"
    and "0 \<le> stride_cm ka" and "0 \<le> stride_cn ka"
    and "int (dim_M ka - 1) * stride_cm ka < 2 ^ 31"
    and "int (dim_N ka - 1) * stride_cn ka < 2 ^ 31"
  shows "(matmul_kernel device_asserts ka cfg pid = Inl DeviceAssertion
      \<and> device_asserts \<and> dim_K ka mod BLOCK_SIZE_K cfg \<noteq> 0
    \<or> (\<exists>fp. matmul_kernel device_asserts ka cfg pid = Inr fp
          \<and> set (writes_c fp) = cell_addr ka ` tile_cells ka cfg pid))
   \<and> tile_cells ka cfg pid
       \<subseteq> {pid_m ka cfg pid * BLOCK_SIZE_M cfg ..< pid_m ka cfg pid * BLOCK_SIZE_M cfg + BLOCK_SIZE_M cfg}
         \<times> {pid_n ka cfg pid * BLOCK_SIZE_N cfg ..< pid_n ka cfg pid * BLOCK_SIZE_N cfg + BLOCK_SIZE_N cfg}
   \<and> tile_cells ka cfg pid \<subseteq> {..<dim_M ka} \<times> {..<dim_N ka}
   \<and> (stride_cm ka = int (max (dim_N ka) 1) \<and> stride_cn ka = 1 \<longrightarrow>
        (\<forall>cell \<in> tile_cells ka cfg pid.
           c_ptr ka \<le> cell_addr ka cell \<and> cell_addr ka cell < c_ptr ka + int (dim_M ka * dim_N ka)))"
proof (intro conjI impI ballI)
  show "matmul_kernel device_asserts ka cfg pid = Inl DeviceAssertion
      \<and> device_asserts \<and> dim_K ka mod BLOCK_SIZE_K cfg \<noteq> 0
    \<or> (\<exists>fp. matmul_kernel device_asserts ka cfg pid = Inr fp
          \<and> set (writes_c fp) = cell_addr ka ` tile_cells ka cfg pid)"
  proof (cases "device_asserts \<and> dim_K ka mod BLOCK_SIZE_K cfg \<noteq> 0")
    case True
    then show ?thesis by (simp add: matmul_kernel_def)
  next
    case False
    then have "matmul_kernel device_asserts ka cfg pid =
          Inr \<lparr>reads_a = a_loads (k_loop ka cfg pid), reads_b = b_loads (k_loop ka cfg pid),
               writes_c = c_stores ka cfg pid\<rparr>"
      by (simp add: matmul_kernel_def Let_def)
    then show ?thesis
      by (simp add: set_c_stores [OF assms(4,5,6,7)])
  qed
next
  show "tile_cells ka cfg pid
       \<subseteq> {pid_m ka cfg pid * BLOCK_SIZE_M cfg ..< pid_m ka cfg pid * BLOCK_SIZE_M cfg + BLOCK_SIZE_M cfg}
         \<times> {pid_n ka cfg pid * BLOCK_SIZE_N cfg ..< pid_n ka cfg pid * BLOCK_SIZE_N cfg + BLOCK_SIZE_N cfg}"
    unfolding tile_cells_def by auto
next
  show "tile_cells ka cfg pid \<subseteq> {..<dim_M ka} \<times> {..<dim_N ka}"
    unfolding tile_cells_def by auto
next
  fix cell
  assume s: "stride_cm ka = int (max (dim_N ka) 1) \<and> stride_cn ka = 1"
    and c: "cell \<in> tile_cells ka cfg pid"
  from c have m: "fst cell < dim_M ka" and n: "snd cell < dim_N ka"
    unfolding tile_cells_def by auto
  from n have "max (dim_N ka) 1 = dim_N ka" by simp
  with s have addr: "cell_addr ka cell = c_ptr ka + (int (dim_N ka) * int (fst cell) + int (snd cell))"
    by (simp add: cell_addr_def)
  show "c_ptr ka \<le> cell_addr ka cell"
    unfolding addr using contiguous_cell_in_buffer(1) [OF m n] by simp
  show "cell_addr ka cell < c_ptr ka + int (dim_M ka * dim_N ka)"
    unfolding addr using contiguous_cell_in_buffer(2) [OF m n] by simp
qed

text \<open>
  The last tile of the \<open>3 \<times> 3\<close> example: program 3 of a grid of 4 writes the one cell
  \<open>(2, 2)\<close>.
\<close>

theorem store_writes_own_tile_witness:
  "3 < grid (dim_M example_args) (dim_N example_args) example_config
   \<and> dim_M example_args + BLOCK_SIZE_M example_config \<le> 2 ^ 31
   \<and> dim_N example_args + BLOCK_SIZE_N example_config \<le> 2 ^ 31
   \<and> 0 \<le> stride_cm example_args \<and> 0 \<le> stride_cn example_args
   \<and> int (dim_M example_args - 1) * stride_cm example_args < 2 ^ 31
   \<and> int (dim_N example_args - 1) * stride_cn example_args < 2 ^ 31
   \<and> (\<exists>fp. matmul_kernel True example_args example_config 3 = Inr fp
         \<and> set (writes_c fp) = cell_addr example_args ` tile_cells example_args example_config 3)
   \<and> stride_cm example_args = int (max (dim_N example_args) 1) \<and> stride_cn example_args = 1
   \<and> (2, 2) \<in> tile_cells example_args example_config 3
   \<and> c_ptr example_args \<le> cell_addr example_args (2, 2)
   \<and> cell_addr example_args (2, 2) < c_ptr example_args + int (dim_M example_args * dim_N example_args)"
proof -
  have g: "3 < grid (dim_M example_args) (dim_N example_args) example_config"
    by (simp add: example_args_def example_config_def grid_def cdiv_def)
  have h: "dim_M example_args + BLOCK_SIZE_M example_config \<le> 2 ^ 31"
    "dim_N example_args + BLOCK_SIZE_N example_config \<le> 2 ^ 31"
    "0 \<le> stride_cm example_args" "0 \<le> stride_cn example_args"
    "int (dim_M example_args - 1) * stride_cm example_args < 2 ^ 31"
    "int (dim_N example_args - 1) * stride_cn example_args < 2 ^ 31"
    by (simp_all add: example_args_def example_config_def)
  note th = store_writes_own_tile [OF g h, of True]
  have run: "matmul_kernel True example_args example_config 3 \<noteq> Inl DeviceAssertion"
    by (simp add: matmul_kernel_def Let_def example_args_def example_config_def)
  have s: "stride_cm example_args = int (max (dim_N example_args) 1) \<and> stride_cn example_args = 1"
    by (simp add: example_args_def)
  have c: "(2, 2) \<in> tile_cells example_args example_config 3"
    by (simp add: tile_cells_def pid_m_def pid_n_def program_tile_def tile_of_def cdiv_def
          example_args_def example_config_def Let_def)
  from th run s c g h show ?thesis by blast
qed

text \<open>
  C7 as the specification has it, with no bound on the size of the output, fails on a
  large output. \<^verbatim>\<open>matmul\<close> launches the kernel on the contiguous \<open>65537 \<times> 64\<close> and
  \<open>64 \<times> 32768\<close> tensors with a grid of 65664 programs. Program 65536 has the tile
  \<open>(512, 0)\<close>, whose in-bounds cells are the cells \<open>(65536, n)\<close> with \<open>n < 256\<close>.
  The offset \<open>32768 * 65536\<close> of the cell \<open>(65536, 0)\<close> is \<open>2 ^ 31\<close>, which wraps
  to \<open>- 2 ^ 31\<close> in 32 bits: the instance writes \<open>2 ^ 31\<close> elements before the start
  of the output, at an address that is the address of no cell of C, and it does not write
  the cell \<open>(65536, 0)\<close> of its own tile.
\<close>

theorem store_wraps_on_large_output:
  "is_contiguous tall_a
   \<and> fst (matmul far_env tall_a wide_b False) ! 1
       = LaunchJit 65664 (autotuned AUTOTUNE_CONFIGS) tall_args
   \<and> 65536 < grid (dim_M tall_args) (dim_N tall_args) (autotuned AUTOTUNE_CONFIGS)
   \<and> (65536, 0) \<in> tile_cells tall_args (autotuned AUTOTUNE_CONFIGS) 65536
   \<and> cell_addr tall_args (65536, 0) = c_ptr tall_args + 2 ^ 31
   \<and> matmul_kernel True tall_args (autotuned AUTOTUNE_CONFIGS) 65536
       = Inr \<lparr>reads_a = a_loads (k_loop tall_args (autotuned AUTOTUNE_CONFIGS) 65536),
              reads_b = b_loads (k_loop tall_args (autotuned AUTOTUNE_CONFIGS) 65536),
              writes_c = c_stores tall_args (autotuned AUTOTUNE_CONFIGS) 65536\<rparr>
   \<and> c_ptr tall_args - 2 ^ 31 \<in> set (c_stores tall_args (autotuned AUTOTUNE_CONFIGS) 65536)
   \<and> cell_addr tall_args (65536, 0)
       \<notin> set (c_stores tall_args (autotuned AUTOTUNE_CONFIGS) 65536)
   \<and> c_ptr tall_args - 2 ^ 31
       \<notin> cell_addr tall_args ` ({..<dim_M tall_args} \<times> {..<dim_N tall_args})
   \<and> c_ptr tall_args - 2 ^ 31 < c_ptr tall_args"
proof -
  define cfg where "cfg = autotuned AUTOTUNE_CONFIGS"
  have cfg: "BLOCK_SIZE_M cfg = 128" "BLOCK_SIZE_N cfg = 256" "BLOCK_SIZE_K cfg = 64"
    "GROUP_SIZE_M cfg = 8"
    by (simp_all add: cfg_def autotuned_def AUTOTUNE_CONFIGS_def)
  have ka: "c_ptr tall_args = 30000000000" "dim_M tall_args = 65537" "dim_N tall_args = 32768"
    "dim_K tall_args = 64" "stride_cm tall_args = 32768" "stride_cn tall_args = 1"
    by (simp_all add: tall_args_def)
  have c: "is_contiguous tall_a" by (simp add: is_contiguous_def tall_a_def)
  have g: "grid 65537 32768 cfg = 65664" by (simp add: grid_def cdiv_def cfg)
  have "fst (matmul far_env tall_a wide_b False) ! 1
          = LaunchJit (grid 65537 32768 cfg) cfg tall_args"
    using c unfolding cfg_def
    by (simp add: matmul_def launch_def torch_empty_def Let_def tall_a_def wide_b_def far_env_def
          tall_args_def split: prod.splits option.splits del: dump_asm.simps)
  then have ev: "fst (matmul far_env tall_a wide_b False) ! 1 = LaunchJit 65664 cfg tall_args"
    unfolding g .
  have pid: "65536 < grid (dim_M tall_args) (dim_N tall_args) cfg" unfolding ka g by simp
  have pm: "pid_m tall_args cfg 65536 = 512"
    by (simp add: pid_m_def program_tile_def tile_of_def cdiv_def Let_def ka cfg)
  have pn: "pid_n tall_args cfg 65536 = 0"
    by (simp add: pid_n_def program_tile_def tile_of_def cdiv_def Let_def ka cfg)
  have tc: "tile_cells tall_args cfg 65536 = {65536..<65537} \<times> {0..<256}"
    by (simp add: tile_cells_def pm pn ka cfg)
  have cell: "(65536, 0) \<in> tile_cells tall_args cfg 65536" unfolding tc by simp
  have addr: "cell_addr tall_args (65536, 0) = c_ptr tall_args + 2 ^ 31"
    by (simp add: cell_addr_def ka)
  have row: "scaled (int 65536) (stride_cm tall_args) = - (2 ^ 31)"
    by (simp add: ka scaled_def wrap_def int_bits_def signed_take_bit_eq_take_bit_shift)
  have col: "scaled (int n) (stride_cn tall_args) = int n" if "n < 256" for n
  proof -
    from that have "n \<le> 255" by simp
    moreover have "0 \<le> stride_cn tall_args" "int 255 * stride_cn tall_args < 2 ^ 31"
      by (simp_all add: ka)
    ultimately have "scaled (int n) (stride_cn tall_args) = int n * stride_cn tall_args"
      by (rule scaled_offset)
    then show ?thesis by (simp add: ka)
  qed
  have written: "p = c_ptr tall_args - 2 ^ 31 + int (snd cl) \<and> snd cl < 256"
    if "cl \<in> tile_cells tall_args cfg 65536"
      and "p = c_ptr tall_args + scaled (int (fst cl)) (stride_cm tall_args)
                 + scaled (int (snd cl)) (stride_cn tall_args)" for p cl
  proof -
    from that(1) have f: "fst cl = 65536" and s: "snd cl < 256" unfolding tc by auto
    show ?thesis unfolding that(2) f row col [OF s] using s by simp
  qed
  have "c_ptr tall_args + scaled (int (fst (65536::nat, 0::nat))) (stride_cm tall_args)
          + scaled (int (snd (65536::nat, 0::nat))) (stride_cn tall_args)
        \<in> set (c_stores tall_args cfg 65536)"
    unfolding set_c_stores_wrapped using cell by (rule imageI)
  then have wr: "c_ptr tall_args - 2 ^ 31 \<in> set (c_stores tall_args cfg 65536)"
    using row col [of 0] by simp
  have nwr: "cell_addr tall_args (65536, 0) \<notin> set (c_stores tall_args cfg 65536)"
  proof
    assume "cell_addr tall_args (65536, 0) \<in> set (c_stores tall_args cfg 65536)"
    then obtain cl where "cl \<in> tile_cells tall_args cfg 65536"
      and "cell_addr tall_args (65536, 0)
             = c_ptr tall_args + scaled (int (fst cl)) (stride_cm tall_args)
                 + scaled (int (snd cl)) (stride_cn tall_args)"
      unfolding set_c_stores_wrapped by blast
    then have "cell_addr tall_args (65536, 0) = c_ptr tall_args - 2 ^ 31 + int (snd cl)
        \<and> snd cl < 256"
      by (rule written)
    then have e: "cell_addr tall_args (65536, 0) = c_ptr tall_args - 2 ^ 31 + int (snd cl)"
      and s: "snd cl < 256"
      by (rule conjunct1, rule conjunct2)
    from s have "int (snd cl) < 256" by simp
    with e show False unfolding addr by simp
  qed
  have run: "matmul_kernel True tall_args cfg 65536 =
          Inr \<lparr>reads_a = a_loads (k_loop tall_args cfg 65536),
               reads_b = b_loads (k_loop tall_args cfg 65536),
               writes_c = c_stores tall_args cfg 65536\<rparr>"
    by (simp add: matmul_kernel_def Let_def ka cfg)
  have out: "c_ptr tall_args - 2 ^ 31
       \<notin> cell_addr tall_args ` ({..<dim_M tall_args} \<times> {..<dim_N tall_args})"
  proof
    assume "c_ptr tall_args - 2 ^ 31
       \<in> cell_addr tall_args ` ({..<dim_M tall_args} \<times> {..<dim_N tall_args})"
    then obtain cl where "c_ptr tall_args - 2 ^ 31 = cell_addr tall_args cl" by blast
    moreover have "c_ptr tall_args \<le> cell_addr tall_args cl"
      by (rule cell_addr_ge) (simp_all add: ka)
    ultimately show False by simp
  qed
  have before: "c_ptr tall_args - 2 ^ 31 < c_ptr tall_args" by simp
  from c ev pid cell addr run wr nwr out before show ?thesis
    unfolding cfg_def by (intro conjI)
qed

section \<open>The loads of the weight tensor stay inside it\<close>

text \<open>
  After \<open>j\<close> steps of the loop the block \<^verbatim>\<open>b_ptrs\<close> is the initial block moved
  \<open>j\<close> times by the product \<open>BLOCK_SIZE_K * stride_bk\<close> of line 145, and the addresses
  read are those of the initial block moved \<open>k\<close> times for \<open>k < j\<close>.
\<close>

lemma cdiv_exact:
  assumes "0 < d" "K mod d = 0"
  shows "cdiv K d = K div d"
proof -
  have K: "K div d * d = K" using assms(2) by (simp add: mod_eq_0_iff_dvd)
  have "K + d - 1 = K div d * d + (d - 1)" using K assms(1) by linarith
  then have "cdiv K d = (K div d * d + (d - 1)) div d"
    by (simp only: cdiv_def)
  also have "\<dots> = K div d + (d - 1) div d"
    using assms(1) by (intro div_mult_self3) simp
  also have "(d - 1) div d = 0" using assms(1) by (intro div_less) simp
  finally show ?thesis by simp
qed

lemma step_row_less:
  assumes "K mod BK = 0" "k < cdiv K BK" "kk < BK"
  shows "k * BK + kk < K"
proof -
  have pos: "0 < BK" using assms(3) by simp
  then have "k < K div BK" using assms(1,2) by (simp add: cdiv_exact)
  then have "Suc k * BK \<le> K div BK * BK" by (intro mult_le_mono1) simp
  also have "\<dots> = K" using assms(1) by (simp add: mod_eq_0_iff_dvd)
  finally have "Suc k * BK \<le> K" .
  moreover have "k * BK + kk < Suc k * BK" using assms(3) by simp
  ultimately show ?thesis by linarith
qed

lemma b_ptrs_k_step:
  "b_ptrs (k_step ka cfg k st)
     = map (map (\<lambda>p. p + scaled (int (BLOCK_SIZE_K cfg)) (stride_bk ka))) (b_ptrs st)"
  by (simp add: k_step_def)

lemma b_loads_k_step:
  "b_loads (k_step ka cfg k st) = b_loads st @ concat (b_ptrs st)"
  by (simp add: k_step_def)

lemma b_ptrs_fold:
  "b_ptrs (fold (k_step ka cfg) [0..<j] st)
     = map (map (\<lambda>p. p + int j * scaled (int (BLOCK_SIZE_K cfg)) (stride_bk ka))) (b_ptrs st)"
proof (induction j)
  case 0
  show ?case by (simp add: map_idI)
next
  case (Suc j)
  define d where "d = scaled (int (BLOCK_SIZE_K cfg)) (stride_bk ka)"
  have "b_ptrs (fold (k_step ka cfg) [0..<Suc j] st)
          = map (map (\<lambda>p. p + d)) (b_ptrs (fold (k_step ka cfg) [0..<j] st))"
    by (simp add: b_ptrs_k_step d_def)
  also have "\<dots> = map (map (\<lambda>p. p + d)) (map (map (\<lambda>p. p + int j * d)) (b_ptrs st))"
    unfolding Suc d_def ..
  also have "\<dots> = map (map (\<lambda>p. p + int (Suc j) * d)) (b_ptrs st)"
    by (simp add: o_def algebra_simps)
  finally show ?case unfolding d_def .
qed

lemma b_loads_fold:
  "set (b_loads (fold (k_step ka cfg) [0..<j] st))
     = set (b_loads st)
       \<union> {p + int k * scaled (int (BLOCK_SIZE_K cfg)) (stride_bk ka) | p k.
            p \<in> set (concat (b_ptrs st)) \<and> k < j}"
proof (induction j)
  case 0
  show ?case by simp
next
  case (Suc j)
  define d where "d = scaled (int (BLOCK_SIZE_K cfg)) (stride_bk ka)"
  have "set (b_loads (fold (k_step ka cfg) [0..<Suc j] st))
          = set (b_loads (fold (k_step ka cfg) [0..<j] st))
            \<union> set (concat (b_ptrs (fold (k_step ka cfg) [0..<j] st)))"
    by (simp add: b_loads_k_step)
  also have "set (concat (b_ptrs (fold (k_step ka cfg) [0..<j] st)))
          = {p + int j * d | p. p \<in> set (concat (b_ptrs st))}"
    unfolding b_ptrs_fold d_def by auto
  also have "set (b_loads (fold (k_step ka cfg) [0..<j] st))
          = set (b_loads st) \<union> {p + int k * d | p k. p \<in> set (concat (b_ptrs st)) \<and> k < j}"
    unfolding Suc d_def ..
  finally show ?case
    unfolding d_def by (auto simp add: less_Suc_eq)
qed

lemma set_concat_table:
  "set (concat (map (\<lambda>n. map (f n) ms) ns)) = {f n m | n m. n \<in> set ns \<and> m \<in> set ms}"
  by auto

lemma set_b_ptrs0:
  "set (concat (b_ptrs0 ka cfg pid))
     = {b_ptr ka + wrap (max (int_bits (stride_bk ka)) (int_bits (stride_bn ka)))
                     (scaled (int kk) (stride_bk ka) + scaled (int n) (stride_bn ka)) | kk n.
          kk < BLOCK_SIZE_K cfg \<and> n \<in> set (offs_bn ka cfg pid)}"
proof -
  have "set (concat (b_ptrs0 ka cfg pid))
          = {b_ptr ka + wrap (max (int_bits (stride_bk ka)) (int_bits (stride_bn ka)))
                          (scaled (int kk) (stride_bk ka) + scaled (int n) (stride_bn ka)) | n kk.
               n \<in> set (offs_bn ka cfg pid) \<and> kk \<in> set (offs_bk cfg)}"
    unfolding b_ptrs0_def by (rule set_concat_table)
  also have "\<dots> = {b_ptr ka + wrap (max (int_bits (stride_bk ka)) (int_bits (stride_bn ka)))
                     (scaled (int kk) (stride_bk ka) + scaled (int n) (stride_bn ka)) | kk n.
          kk < BLOCK_SIZE_K cfg \<and> n \<in> set (offs_bn ka cfg pid)}"
    unfolding offs_bk_def arange_def by auto
  finally show ?thesis .
qed

lemma b_ptrs0_member:
  assumes "kk < BLOCK_SIZE_K cfg" "n \<in> set (offs_bn ka cfg pid)"
  shows "b_ptr ka + wrap (max (int_bits (stride_bk ka)) (int_bits (stride_bn ka)))
                      (scaled (int kk) (stride_bk ka) + scaled (int n) (stride_bn ka))
           \<in> set (concat (b_ptrs0 ka cfg pid))"
  unfolding set_b_ptrs0 using assms by blast

lemma offs_bn_less:
  assumes "0 < dim_N ka" "n \<in> set (offs_bn ka cfg pid)"
  shows "n < dim_N ka"
  using assms unfolding offs_bn_def by auto

lemma set_b_loads:
  "set (b_loads (k_loop ka cfg pid))
     = {p + int k * scaled (int (BLOCK_SIZE_K cfg)) (stride_bk ka) | p k.
          p \<in> set (concat (b_ptrs0 ka cfg pid)) \<and> k < cdiv (dim_K ka) (BLOCK_SIZE_K cfg)}"
  unfolding k_loop_def b_loads_fold by simp

text \<open>
  When the strides are not negative and the offset of the last element of the weight
  tensor is below \<open>2 ^ 31\<close>, no product and no sum on the way to an address that is
  read wraps: the address read at step \<open>k\<close> in lane \<open>(n, kk)\<close> is that of the element
  in row \<open>k * BLOCK_SIZE_K + kk\<close> and column \<open>n\<close>.
\<close>

lemma b_load_exact:
  assumes K: "dim_K ka mod BLOCK_SIZE_K cfg = 0"
    and k: "k < cdiv (dim_K ka) (BLOCK_SIZE_K cfg)" and kk: "kk < BLOCK_SIZE_K cfg"
    and n: "n < dim_N ka"
    and sk: "0 \<le> stride_bk ka" and sn: "0 \<le> stride_bn ka"
    and fit: "int (dim_K ka - 1) * stride_bk ka + int (dim_N ka - 1) * stride_bn ka < 2 ^ 31"
  shows "b_ptr ka + wrap (max (int_bits (stride_bk ka)) (int_bits (stride_bn ka)))
                      (scaled (int kk) (stride_bk ka) + scaled (int n) (stride_bn ka))
           + int k * scaled (int (BLOCK_SIZE_K cfg)) (stride_bk ka)
         = b_ptr ka + int (k * BLOCK_SIZE_K cfg + kk) * stride_bk ka + int n * stride_bn ka"
proof -
  have r: "k * BLOCK_SIZE_K cfg + kk < dim_K ka" using K k kk by (rule step_row_less)
  have K0: "0 \<le> int (dim_K ka - 1) * stride_bk ka" using sk by simp
  have N0: "0 \<le> int (dim_N ka - 1) * stride_bn ka" using sn by simp
  have fitK: "int (dim_K ka - 1) * stride_bk ka < 2 ^ 31" using fit N0 by linarith
  have fitN: "int (dim_N ka - 1) * stride_bn ka < 2 ^ 31" using fit K0 by linarith
  have kk_le: "kk \<le> dim_K ka - 1" using r by linarith
  have n_le: "n \<le> dim_N ka - 1" using n by linarith
  have pk: "scaled (int kk) (stride_bk ka) = int kk * stride_bk ka"
    using kk_le sk fitK by (rule scaled_offset)
  have pn: "scaled (int n) (stride_bn ka) = int n * stride_bn ka"
    using n_le sn fitN by (rule scaled_offset)
  have lek: "int kk * stride_bk ka \<le> int (dim_K ka - 1) * stride_bk ka"
    using kk_le sk by (intro mult_right_mono) simp_all
  have len: "int n * stride_bn ka \<le> int (dim_N ka - 1) * stride_bn ka"
    using n_le sn by (intro mult_right_mono) simp_all
  have s0: "0 \<le> int kk * stride_bk ka + int n * stride_bn ka" using sk sn by simp
  have s1: "int kk * stride_bk ka + int n * stride_bn ka < 2 ^ 31"
    using lek len fit by linarith
  have w: "32 \<le> max (int_bits (stride_bk ka)) (int_bits (stride_bn ka))"
    using int_bits_ge [of "stride_bk ka"] by simp
  have sum: "wrap (max (int_bits (stride_bk ka)) (int_bits (stride_bn ka)))
               (scaled (int kk) (stride_bk ka) + scaled (int n) (stride_bn ka))
             = int kk * stride_bk ka + int n * stride_bn ka"
    unfolding pk pn using w s0 s1 by (rule wrap_fits)
  have adv: "int k * scaled (int (BLOCK_SIZE_K cfg)) (stride_bk ka)
             = int k * (int (BLOCK_SIZE_K cfg) * stride_bk ka)"
  proof (cases "k = 0")
    case True
    then show ?thesis by simp
  next
    case False
    then have "1 \<le> k" by simp
    then have "1 * BLOCK_SIZE_K cfg \<le> k * BLOCK_SIZE_K cfg" by (rule mult_le_mono1)
    then have "BLOCK_SIZE_K cfg \<le> k * BLOCK_SIZE_K cfg" by (simp only: mult_1)
    with r have "BLOCK_SIZE_K cfg \<le> dim_K ka - 1" by linarith
    then have "scaled (int (BLOCK_SIZE_K cfg)) (stride_bk ka)
                 = int (BLOCK_SIZE_K cfg) * stride_bk ka"
      using sk fitK by (rule scaled_offset)
    then show ?thesis by (rule arg_cong)
  qed
  show ?thesis unfolding sum adv by (simp add: algebra_simps)
qed

lemma b_loads_in_bounds:
  assumes K: "dim_K ka mod BLOCK_SIZE_K cfg = 0" and N: "0 < dim_N ka"
    and sk: "0 \<le> stride_bk ka" and sn: "0 \<le> stride_bn ka"
    and fit: "int (dim_K ka - 1) * stride_bk ka + int (dim_N ka - 1) * stride_bn ka < 2 ^ 31"
  shows "set (b_loads (k_loop ka cfg pid)) \<subseteq> b_elements ka"
proof
  fix p assume "p \<in> set (b_loads (k_loop ka cfg pid))"
  then obtain q k where "p = q + int k * scaled (int (BLOCK_SIZE_K cfg)) (stride_bk ka)"
    and q: "q \<in> set (concat (b_ptrs0 ka cfg pid))"
    and k: "k < cdiv (dim_K ka) (BLOCK_SIZE_K cfg)"
    unfolding set_b_loads by blast
  moreover from q obtain kk n where
    "q = b_ptr ka + wrap (max (int_bits (stride_bk ka)) (int_bits (stride_bn ka)))
                      (scaled (int kk) (stride_bk ka) + scaled (int n) (stride_bn ka))"
    and kk: "kk < BLOCK_SIZE_K cfg" and n: "n \<in> set (offs_bn ka cfg pid)"
    unfolding set_b_ptrs0 by blast
  ultimately have p: "p = b_ptr ka + wrap (max (int_bits (stride_bk ka)) (int_bits (stride_bn ka)))
                      (scaled (int kk) (stride_bk ka) + scaled (int n) (stride_bn ka))
          + int k * scaled (int (BLOCK_SIZE_K cfg)) (stride_bk ka)"
    by simp
  have r: "k * BLOCK_SIZE_K cfg + kk < dim_K ka" using K k kk by (rule step_row_less)
  have c: "n < dim_N ka" using N n by (rule offs_bn_less)
  have "p = b_ptr ka + int (k * BLOCK_SIZE_K cfg + kk) * stride_bk ka + int n * stride_bn ka"
    unfolding p using K k kk c sk sn fit by (rule b_load_exact)
  with r c show "p \<in> b_elements ka" unfolding b_elements_def by blast
qed

lemma b_elements_ge:
  assumes "0 \<le> stride_bk ka" "0 \<le> stride_bn ka" "p \<in> b_elements ka"
  shows "b_ptr ka \<le> p"
proof -
  from assms(3) obtain r c where "p = b_ptr ka + int r * stride_bk ka + int c * stride_bn ka"
    unfolding b_elements_def by blast
  moreover have "0 \<le> int r * stride_bk ka" "0 \<le> int c * stride_bn ka"
    using assms(1,2) by simp_all
  ultimately show ?thesis by linarith
qed

lemma grid_pos_N:
  assumes "pid < grid M N cfg"
  shows "0 < N"
proof (rule ccontr)
  assume "\<not> 0 < N"
  then have "cdiv N (BLOCK_SIZE_N cfg) = 0"
    by (cases "BLOCK_SIZE_N cfg") (simp_all add: cdiv_def)
  with assms show False by (simp add: grid_def)
qed

lemma length_b_ptrs_step:
  "length (concat (map (map f) xs)) = length (concat xs)"
  by (induction xs) simp_all

lemma length_b_loads_fold:
  "length (b_loads (fold (k_step ka cfg) [0..<j] st))
     = length (b_loads st) + j * length (concat (b_ptrs st))"
proof (induction j)
  case 0
  show ?case by simp
next
  case (Suc j)
  show ?case
    by (simp add: b_loads_k_step Suc b_ptrs_fold length_b_ptrs_step)
qed

lemma length_b_ptrs0:
  "length (concat (b_ptrs0 ka cfg pid)) = BLOCK_SIZE_N cfg * BLOCK_SIZE_K cfg"
  unfolding b_ptrs0_def offs_bn_def offs_bk_def arange_def
  by (simp add: length_concat o_def sum_list_triv)

lemma length_b_loads:
  "length (b_loads (k_loop ka cfg pid))
     = cdiv (dim_K ka) (BLOCK_SIZE_K cfg) * (BLOCK_SIZE_N cfg * BLOCK_SIZE_K cfg)"
  unfolding k_loop_def length_b_loads_fold by (simp add: length_b_ptrs0)

text \<open>
  C9, as the code has it: the load of the weight slab has no mask, and it needs none as
  long as the offsets into the weight tensor fit in 32 bits. If \<open>K mod BLOCK_SIZE_K = 0\<close>,
  the strides of \<^verbatim>\<open>b\<close> are not negative, the offset
  \<open>(K - 1) * stride_bk + (N - 1) * stride_bn\<close> of its last element is below \<open>2 ^ 31\<close>,
  and \<open>M + BLOCK_SIZE_M\<close>, \<open>N + BLOCK_SIZE_N\<close> and \<open>K + BLOCK_SIZE_K\<close> do not exceed
  \<open>2 ^ 31\<close>, then every instance of the grid runs, and every address it reads from
  \<^verbatim>\<open>b\<close>, on every step of the loop, is the address of an element \<open>(r, c)\<close> of the
  weight tensor with \<open>r < K\<close> and \<open>c < N\<close>: the column offsets are taken modulo \<open>N\<close>,
  and the block of pointers moves \<open>cdiv K BLOCK_SIZE_K\<close> times by the product
  \<open>BLOCK_SIZE_K * stride_bk\<close> of line 145. Each step reads all
  \<open>BLOCK_SIZE_N * BLOCK_SIZE_K\<close> addresses of the block.
\<close>

theorem weight_loads_in_bounds:
  assumes "dim_K ka mod BLOCK_SIZE_K cfg = 0" and "pid < grid (dim_M ka) (dim_N ka) cfg"
    and "dim_M ka + BLOCK_SIZE_M cfg \<le> 2 ^ 31" and "dim_N ka + BLOCK_SIZE_N cfg \<le> 2 ^ 31"
    and "dim_K ka + BLOCK_SIZE_K cfg \<le> 2 ^ 31"
    and "0 \<le> stride_bk ka" and "0 \<le> stride_bn ka"
    and "int (dim_K ka - 1) * stride_bk ka + int (dim_N ka - 1) * stride_bn ka < 2 ^ 31"
  shows "\<exists>fp. matmul_kernel device_asserts ka cfg pid = Inr fp
           \<and> set (reads_b fp) \<subseteq> b_elements ka
           \<and> length (reads_b fp)
               = cdiv (dim_K ka) (BLOCK_SIZE_K cfg) * (BLOCK_SIZE_N cfg * BLOCK_SIZE_K cfg)
           \<and> b_ptrs (k_loop ka cfg pid)
               = map (map (\<lambda>p. p + int (cdiv (dim_K ka) (BLOCK_SIZE_K cfg))
                                      * scaled (int (BLOCK_SIZE_K cfg)) (stride_bk ka)))
                   (b_ptrs0 ka cfg pid)"
proof -
  have N: "0 < dim_N ka" using assms(2) by (rule grid_pos_N)
  have run: "matmul_kernel device_asserts ka cfg pid =
          Inr \<lparr>reads_a = a_loads (k_loop ka cfg pid), reads_b = b_loads (k_loop ka cfg pid),
               writes_c = c_stores ka cfg pid\<rparr>"
    using assms(1) by (simp add: matmul_kernel_def Let_def)
  have ptrs: "b_ptrs (k_loop ka cfg pid)
               = map (map (\<lambda>p. p + int (cdiv (dim_K ka) (BLOCK_SIZE_K cfg))
                                      * scaled (int (BLOCK_SIZE_K cfg)) (stride_bk ka)))
                   (b_ptrs0 ka cfg pid)"
    unfolding k_loop_def b_ptrs_fold by simp
  show ?thesis
    using b_loads_in_bounds [OF assms(1) N assms(6,7,8), of pid] length_b_loads [of ka cfg pid] ptrs
    unfolding run by simp
qed

text \<open>Program 3 of the \<open>3 \<times> 3\<close> example, where \<open>K = 4\<close> and \<open>BLOCK_SIZE_K = 2\<close>.\<close>

theorem weight_loads_in_bounds_witness:
  "dim_K example_args mod BLOCK_SIZE_K example_config = 0
   \<and> 3 < grid (dim_M example_args) (dim_N example_args) example_config
   \<and> dim_M example_args + BLOCK_SIZE_M example_config \<le> 2 ^ 31
   \<and> dim_N example_args + BLOCK_SIZE_N example_config \<le> 2 ^ 31
   \<and> dim_K example_args + BLOCK_SIZE_K example_config \<le> 2 ^ 31
   \<and> 0 \<le> stride_bk example_args \<and> 0 \<le> stride_bn example_args
   \<and> int (dim_K example_args - 1) * stride_bk example_args
       + int (dim_N example_args - 1) * stride_bn example_args < 2 ^ 31
   \<and> (\<exists>fp. matmul_kernel True example_args example_config 3 = Inr fp
           \<and> set (reads_b fp) \<subseteq> b_elements example_args
           \<and> length (reads_b fp) = 8)"
proof -
  have h1: "dim_K example_args mod BLOCK_SIZE_K example_config = 0"
    by (simp add: example_args_def example_config_def)
  have h2: "3 < grid (dim_M example_args) (dim_N example_args) example_config"
    by (simp add: example_args_def example_config_def grid_def cdiv_def)
  have h: "dim_M example_args + BLOCK_SIZE_M example_config \<le> 2 ^ 31"
    "dim_N example_args + BLOCK_SIZE_N example_config \<le> 2 ^ 31"
    "dim_K example_args + BLOCK_SIZE_K example_config \<le> 2 ^ 31"
    "0 \<le> stride_bk example_args" "0 \<le> stride_bn example_args"
    "int (dim_K example_args - 1) * stride_bk example_args
       + int (dim_N example_args - 1) * stride_bn example_args < 2 ^ 31"
    by (simp_all add: example_args_def example_config_def)
  have "cdiv (dim_K example_args) (BLOCK_SIZE_K example_config)
          * (BLOCK_SIZE_N example_config * BLOCK_SIZE_K example_config) = 8"
    by (simp add: example_args_def example_config_def cdiv_def)
  with weight_loads_in_bounds [OF h1 h2 h, of True] h1 h2 h show ?thesis
    by auto
qed

text \<open>
  C9 as the specification has it, where the load needs no mask whenever
  \<open>K mod BLOCK_SIZE_K = 0\<close>, fails on a large weight tensor. \<^verbatim>\<open>matmul\<close> launches the
  kernel on the contiguous \<open>1 \<times> 64\<close> and \<open>64 \<times> 33554688\<close> tensors with a grid of
  131073 programs; \<open>K = 64\<close> is a multiple of \<open>BLOCK_SIZE_K = 64\<close>. Program 131009
  has \<open>pid_n = 131009\<close>, so its first column is \<open>33538304\<close>. In row 63 the offset
  \<open>63 * 33554688 + 33538304\<close> is \<open>2 ^ 31\<close>, which wraps to \<open>- 2 ^ 31\<close> in 32 bits:
  the unmasked load reads \<open>2 ^ 31\<close> elements before the start of the weight tensor, at an
  address that is the address of no element of it.
\<close>

theorem weight_load_wraps_on_large_tensor:
  "is_contiguous row_a
   \<and> fst (matmul far_env row_a long_b False) ! 1
       = LaunchJit 131073 (autotuned AUTOTUNE_CONFIGS) long_args
   \<and> dim_K long_args mod BLOCK_SIZE_K (autotuned AUTOTUNE_CONFIGS) = 0
   \<and> 131009 < grid (dim_M long_args) (dim_N long_args) (autotuned AUTOTUNE_CONFIGS)
   \<and> matmul_kernel True long_args (autotuned AUTOTUNE_CONFIGS) 131009
       = Inr \<lparr>reads_a = a_loads (k_loop long_args (autotuned AUTOTUNE_CONFIGS) 131009),
              reads_b = b_loads (k_loop long_args (autotuned AUTOTUNE_CONFIGS) 131009),
              writes_c = c_stores long_args (autotuned AUTOTUNE_CONFIGS) 131009\<rparr>
   \<and> b_ptr long_args - 2 ^ 31
       \<in> set (b_loads (k_loop long_args (autotuned AUTOTUNE_CONFIGS) 131009))
   \<and> b_ptr long_args - 2 ^ 31 \<notin> b_elements long_args
   \<and> b_ptr long_args - 2 ^ 31 < b_ptr long_args
   \<and> b_ptr long_args + 2 ^ 31 \<in> b_elements long_args"
proof -
  define cfg where "cfg = autotuned AUTOTUNE_CONFIGS"
  have cfg: "BLOCK_SIZE_M cfg = 128" "BLOCK_SIZE_N cfg = 256" "BLOCK_SIZE_K cfg = 64"
    "GROUP_SIZE_M cfg = 8"
    by (simp_all add: cfg_def autotuned_def AUTOTUNE_CONFIGS_def)
  have ka: "b_ptr long_args = 20000000000" "dim_M long_args = 1" "dim_N long_args = 33554688"
    "dim_K long_args = 64" "stride_bk long_args = 33554688" "stride_bn long_args = 1"
    by (simp_all add: long_args_def)
  have c: "is_contiguous row_a" by (simp add: is_contiguous_def row_a_def)
  have g: "grid 1 33554688 cfg = 131073" by (simp add: grid_def cdiv_def cfg)
  have "fst (matmul far_env row_a long_b False) ! 1
          = LaunchJit (grid 1 33554688 cfg) cfg long_args"
    using c unfolding cfg_def
    by (simp add: matmul_def launch_def torch_empty_def Let_def row_a_def long_b_def far_env_def
          long_args_def split: prod.splits option.splits del: dump_asm.simps)
  then have ev: "fst (matmul far_env row_a long_b False) ! 1 = LaunchJit 131073 cfg long_args"
    unfolding g .
  have K: "dim_K long_args mod BLOCK_SIZE_K cfg = 0" by (simp add: ka cfg)
  have pid: "131009 < grid (dim_M long_args) (dim_N long_args) cfg" unfolding ka g by simp
  have pn: "pid_n long_args cfg 131009 = 131009"
    by (simp add: pid_n_def program_tile_def tile_of_def cdiv_def Let_def ka cfg)
  have "(131009 * 256 + 0) mod 33554688 \<in> (\<lambda>i. (131009 * 256 + i) mod 33554688) ` {0..<256::nat}"
    by (rule imageI) simp
  then have n: "33538304 \<in> set (offs_bn long_args cfg 131009)"
    by (simp add: offs_bn_def arange_def pn ka cfg)
  have w: "wrap (max (int_bits (stride_bk long_args)) (int_bits (stride_bn long_args)))
             (scaled (int 63) (stride_bk long_args) + scaled (int 33538304) (stride_bn long_args))
           = - (2 ^ 31)"
    by (simp add: ka scaled_def wrap_def int_bits_def signed_take_bit_eq_take_bit_shift)
  have "(63::nat) < BLOCK_SIZE_K cfg" by (simp add: cfg)
  then have "b_ptr long_args + wrap (max (int_bits (stride_bk long_args)) (int_bits (stride_bn long_args)))
             (scaled (int 63) (stride_bk long_args) + scaled (int 33538304) (stride_bn long_args))
          \<in> set (concat (b_ptrs0 long_args cfg 131009))"
    using n by (rule b_ptrs0_member)
  then have q: "b_ptr long_args - 2 ^ 31 \<in> set (concat (b_ptrs0 long_args cfg 131009))"
    unfolding w by simp
  have "0 < cdiv (dim_K long_args) (BLOCK_SIZE_K cfg)" by (simp add: cdiv_def ka cfg)
  with q have "b_ptr long_args - 2 ^ 31
                 + int 0 * scaled (int (BLOCK_SIZE_K cfg)) (stride_bk long_args)
               \<in> set (b_loads (k_loop long_args cfg 131009))"
    unfolding set_b_loads by blast
  then have rd: "b_ptr long_args - 2 ^ 31 \<in> set (b_loads (k_loop long_args cfg 131009))"
    by simp
  have run: "matmul_kernel True long_args cfg 131009 =
          Inr \<lparr>reads_a = a_loads (k_loop long_args cfg 131009),
               reads_b = b_loads (k_loop long_args cfg 131009),
               writes_c = c_stores long_args cfg 131009\<rparr>"
    using K by (simp add: matmul_kernel_def Let_def)
  have out: "b_ptr long_args - 2 ^ 31 \<notin> b_elements long_args"
  proof
    assume "b_ptr long_args - 2 ^ 31 \<in> b_elements long_args"
    then have "b_ptr long_args \<le> b_ptr long_args - 2 ^ 31"
      by (intro b_elements_ge) (simp_all add: ka)
    then show False by simp
  qed
  have "b_ptr long_args + int 63 * stride_bk long_args + int 33538304 * stride_bn long_args
          \<in> b_elements long_args"
    unfolding b_elements_def by (rule CollectI, intro exI conjI, rule refl) (simp_all add: ka)
  then have el: "b_ptr long_args + 2 ^ 31 \<in> b_elements long_args"
    by (simp add: ka)
  have before: "b_ptr long_args - 2 ^ 31 < b_ptr long_args" by simp
  from c ev K pid run rd out before el show ?thesis
    unfolding cfg_def by (intro conjI)
qed

section \<open>The host driver\<close>

text \<open>
  The two paths of \<^verbatim>\<open>matmul\<close>. A call whose first argument is not contiguous fails
  the assertion before anything else happens. Otherwise the path of
  \<^verbatim>\<open>use_int16 = False\<close> allocates the output, launches \<^verbatim>\<open>matmul_kernel\<close> and dumps
  the compiled kernel; the path of \<^verbatim>\<open>use_int16 = True\<close> allocates the output, loads
  the precompiled kernel and launches it.
\<close>

lemma matmul_not_contiguous:
  "\<not> is_contiguous a \<Longrightarrow>
     matmul e a b use_int16 = ([], Inl (AssertionError ''Matrix A must be contiguous''))"
  by (simp add: matmul_def)

lemma launch_jit:
  "launch e a b c False =
     ([LaunchJit (grid (shape0 a) (shape1 b) (autotuned AUTOTUNE_CONFIGS)) (autotuned AUTOTUNE_CONFIGS)
         \<lparr>a_ptr = data_ptr a, b_ptr = data_ptr b, c_ptr = data_ptr c,
          dim_M = shape0 a, dim_N = shape1 b, dim_K = shape1 a,
          stride_am = stride0 a, stride_ak = stride1 a,
          stride_bk = stride0 b, stride_bn = stride1 b,
          stride_cm = stride0 c, stride_cn = stride1 c,
          USE_INT8_WEIGHT = False\<rparr>], None)"
  by (simp add: launch_def Let_def)

lemma launch_int16:
  "launch e a b c True =
     (if loadable e int16_ttgir
      then ([Compile int16_ttgir,
             LaunchCompiled int16_ttgir (cdiv (shape0 a) 128 * cdiv (shape1 b) 256, 1, 1)
               [TensorArg a, TensorArg b, TensorArg c,
                IntArg (int (shape0 a)), IntArg (int (shape1 b)), IntArg (int (shape1 a)),
                IntArg (stride0 a), IntArg (stride0 b), IntArg (stride0 c)]], None)
      else ([], Some (OSError int16_ttgir)))"
  by (simp add: launch_def Let_def)

lemma dump_asm_events: "ev \<in> set (fst (dump_asm e f irs)) \<Longrightarrow> \<exists>p. ev = Write p"
  by (induction irs arbitrary: ev) (auto split: if_splits prod.splits)

lemma matmul_jit:
  assumes "is_contiguous a"
  shows "fst (matmul e a b False) =
           Empty (torch_empty e (shape0 a) (shape1 b))
           # LaunchJit (grid (shape0 a) (shape1 b) (autotuned AUTOTUNE_CONFIGS)) (autotuned AUTOTUNE_CONFIGS)
               \<lparr>a_ptr = data_ptr a, b_ptr = data_ptr b, c_ptr = empty_ptr e,
                dim_M = shape0 a, dim_N = shape1 b, dim_K = shape1 a,
                stride_am = stride0 a, stride_ak = stride1 a,
                stride_bk = stride0 b, stride_bn = stride1 b,
                stride_cm = int (max (shape1 b) 1), stride_cn = 1,
                USE_INT8_WEIGHT = False\<rparr>
           # fst (dump_asm e False [''ttir'', ''ttgir'', ''llir'', ''ptx''])"
    and "snd (matmul e a b False) =
           (case snd (dump_asm e False [''ttir'', ''ttgir'', ''llir'', ''ptx'']) of
              None \<Rightarrow> Inr (torch_empty e (shape0 a) (shape1 b))
            | Some err \<Rightarrow> Inl err)"
  using assms
  by (simp_all add: matmul_def Let_def launch_jit torch_empty_def
        split: prod.splits option.splits del: dump_asm.simps)

lemma matmul_int16:
  assumes "is_contiguous a" "loadable e int16_ttgir"
  shows "matmul e a b True =
     ([Empty (torch_empty e (shape0 a) (shape1 b)),
       Compile int16_ttgir,
       LaunchCompiled int16_ttgir (cdiv (shape0 a) 128 * cdiv (shape1 b) 256, 1, 1)
         [TensorArg a, TensorArg b, TensorArg (torch_empty e (shape0 a) (shape1 b)),
          IntArg (int (shape0 a)), IntArg (int (shape1 b)), IntArg (int (shape1 a)),
          IntArg (stride0 a), IntArg (stride0 b), IntArg (stride0 (torch_empty e (shape0 a) (shape1 b)))]],
      Inr (torch_empty e (shape0 a) (shape1 b)))"
  using assms by (simp add: matmul_def Let_def launch_int16)

lemma matmul_int16_no_jit:
  "LaunchJit g cfg ka \<notin> set (fst (matmul e a b True))"
  by (simp add: matmul_def Let_def launch_int16)

lemma matmul_jit_flag:
  assumes "LaunchJit g cfg ka \<in> set (fst (matmul e a b f))"
  shows "\<not> f \<and> \<not> USE_INT8_WEIGHT ka"
proof (cases f)
  case True
  with assms show ?thesis by (simp add: matmul_int16_no_jit)
next
  case False
  show ?thesis
  proof (cases "is_contiguous a")
    case c: False
    with assms show ?thesis by (simp add: matmul_not_contiguous)
  next
    case c: True
    from assms False have "LaunchJit g cfg ka \<in> set (fst (matmul e a b False))" by simp
    then show ?thesis
      using False dump_asm_events [of "LaunchJit g cfg ka" e False]
      unfolding matmul_jit(1) [OF c] by (auto simp del: dump_asm.simps)
  qed
qed

text \<open>
  C6, as the code has it: \<^verbatim>\<open>matmul\<close> never compares the inner dimensions. The
  assertion that did (line 159) is commented out, \<open>K\<close> is read from \<^verbatim>\<open>a.shape\<close> and
  the row count of \<^verbatim>\<open>b\<close> is discarded (line 162). The one check made before the launch
  is that \<^verbatim>\<open>a\<close> is contiguous: a call that fails it raises and does nothing else, and
  every other call allocates the output and launches a kernel whatever the row count of
  \<^verbatim>\<open>b\<close> is (on the path of \<^verbatim>\<open>use_int16 = True\<close>, once the precompiled kernel is
  loaded).
\<close>

theorem matmul_checks_only_contiguity:
  "(\<not> is_contiguous a \<longrightarrow>
      matmul e a b use_int16 = ([], Inl (AssertionError ''Matrix A must be contiguous'')))
   \<and> (is_contiguous a \<and> \<not> use_int16 \<longrightarrow>
        (\<exists>ka evs. fst (matmul e a b use_int16)
            = Empty (torch_empty e (shape0 a) (shape1 b))
              # LaunchJit (grid (shape0 a) (shape1 b) (autotuned AUTOTUNE_CONFIGS))
                  (autotuned AUTOTUNE_CONFIGS) ka
              # evs
          \<and> dim_M ka = shape0 a \<and> dim_N ka = shape1 b \<and> dim_K ka = shape1 a))
   \<and> (is_contiguous a \<and> use_int16 \<and> loadable e int16_ttgir \<longrightarrow>
        (\<exists>g args. matmul e a b use_int16
            = ([Empty (torch_empty e (shape0 a) (shape1 b)), Compile int16_ttgir,
                LaunchCompiled int16_ttgir g args],
               Inr (torch_empty e (shape0 a) (shape1 b)))))"
proof (intro conjI impI)
  assume "\<not> is_contiguous a"
  then show "matmul e a b use_int16 = ([], Inl (AssertionError ''Matrix A must be contiguous''))"
    by (rule matmul_not_contiguous)
next
  assume "is_contiguous a \<and> \<not> use_int16"
  then have c: "is_contiguous a" and f: "use_int16 = False" by simp_all
  show "\<exists>ka evs. fst (matmul e a b use_int16)
            = Empty (torch_empty e (shape0 a) (shape1 b))
              # LaunchJit (grid (shape0 a) (shape1 b) (autotuned AUTOTUNE_CONFIGS))
                  (autotuned AUTOTUNE_CONFIGS) ka
              # evs
          \<and> dim_M ka = shape0 a \<and> dim_N ka = shape1 b \<and> dim_K ka = shape1 a"
    unfolding f matmul_jit(1) [OF c] by (intro exI conjI) (rule refl, simp_all)
next
  assume "is_contiguous a \<and> use_int16 \<and> loadable e int16_ttgir"
  then have c: "is_contiguous a" and f: "use_int16 = True" and l: "loadable e int16_ttgir"
    by simp_all
  show "\<exists>g args. matmul e a b use_int16
            = ([Empty (torch_empty e (shape0 a) (shape1 b)), Compile int16_ttgir,
                LaunchCompiled int16_ttgir g args],
               Inr (torch_empty e (shape0 a) (shape1 b)))"
    unfolding f matmul_int16 [OF c l] by blast
qed

text \<open>
  A contiguous \<open>2 \<times> 64\<close> tensor and a \<open>3 \<times> 5\<close> tensor: the inner dimensions are
  \<open>64\<close> and \<open>3\<close>, or \<open>64\<close> and \<open>6\<close> if \<^verbatim>\<open>b\<close> is read as packed, and both
  paths launch.
\<close>

theorem matmul_checks_only_contiguity_witness:
  "is_contiguous example_a \<and> shape1 example_a \<noteq> shape0 short_b
   \<and> shape1 example_a \<noteq> 2 * shape0 short_b
   \<and> (\<exists>ka evs. fst (matmul example_env example_a short_b False)
            = Empty (torch_empty example_env 2 5)
              # LaunchJit (grid 2 5 (autotuned AUTOTUNE_CONFIGS)) (autotuned AUTOTUNE_CONFIGS) ka
              # evs
          \<and> dim_K ka = 64)
   \<and> loadable example_env int16_ttgir
   \<and> (\<exists>g args. matmul example_env example_a short_b True
            = ([Empty (torch_empty example_env 2 5), Compile int16_ttgir,
                LaunchCompiled int16_ttgir g args],
               Inr (torch_empty example_env 2 5)))"
proof -
  have c: "is_contiguous example_a"
    by (simp add: is_contiguous_def example_a_def)
  have l: "loadable example_env int16_ttgir"
    by (simp add: example_env_def)
  have s: "shape0 example_a = 2" "shape1 example_a = 64" "shape0 short_b = 3" "shape1 short_b = 5"
    by (simp_all add: example_a_def short_b_def)
  from matmul_checks_only_contiguity [of example_a example_env short_b False] c
  have jit: "\<exists>ka evs. fst (matmul example_env example_a short_b False)
            = Empty (torch_empty example_env 2 5)
              # LaunchJit (grid 2 5 (autotuned AUTOTUNE_CONFIGS)) (autotuned AUTOTUNE_CONFIGS) ka
              # evs
          \<and> dim_K ka = 64"
    unfolding s by blast
  from matmul_checks_only_contiguity [of example_a example_env short_b True] c l
  have pre: "\<exists>g args. matmul example_env example_a short_b True
            = ([Empty (torch_empty example_env 2 5), Compile int16_ttgir,
                LaunchCompiled int16_ttgir g args],
               Inr (torch_empty example_env 2 5))"
    unfolding s by blast
  from c l jit pre show ?thesis unfolding s by simp
qed

text \<open>
  The claim C6 as the spec states it, a failure before the launch when the inner
  dimensions disagree, is false for that call: it launches \<^verbatim>\<open>matmul_kernel\<close> with
  \<open>K = 64\<close> on a weight tensor of three rows and returns the output.
\<close>

theorem matmul_launches_on_shape_mismatch:
  "shape1 example_a \<noteq> shape0 short_b \<and> shape1 example_a \<noteq> 2 * shape0 short_b
   \<and> matmul example_env example_a short_b False
       = ([Empty \<lparr>data_ptr = 5000, shape0 = 2, shape1 = 5, stride0 = 5, stride1 = 1\<rparr>,
           LaunchJit 1
             \<lparr>BLOCK_SIZE_M = 128, BLOCK_SIZE_N = 256, BLOCK_SIZE_K = 64, GROUP_SIZE_M = 8,
              num_stages = 3, num_warps = 8\<rparr>
             \<lparr>a_ptr = 1000, b_ptr = 2000, c_ptr = 5000, dim_M = 2, dim_N = 5, dim_K = 64,
              stride_am = 64, stride_ak = 1, stride_bk = 5, stride_bn = 1,
              stride_cm = 5, stride_cn = 1, USE_INT8_WEIGHT = False\<rparr>,
           Write ''/home/dberard/local/scripts/triton/int8mm/bf16.ttir'',
           Write ''/home/dberard/local/scripts/triton/int8mm/bf16.ttgir'',
           Write ''/home/dberard/local/scripts/triton/int8mm/bf16.llir'',
           Write ''/home/dberard/local/scripts/triton/int8mm/bf16.ptx''],
          Inr \<lparr>data_ptr = 5000, shape0 = 2, shape1 = 5, stride0 = 5, stride1 = 1\<rparr>)"
  by code_simp

text \<open>
  C10: with \<^verbatim>\<open>use_int16 = True\<close>, \<^verbatim>\<open>matmul\<close> never dispatches the autotuned kernel.
  When \<^verbatim>\<open>a\<close> is contiguous and the file loads, it allocates the output, loads the
  precompiled kernel from the fixed path
  \<^verbatim>\<open>/home/dberard/local/scripts/triton/int8mm/int16.ttgir\<close> and launches it on the grid
  \<open>(cdiv M 128 * cdiv N 256, 1, 1)\<close> with the three tensors, \<open>M\<close>, \<open>N\<close>, \<open>K\<close>
  and the leading stride of each tensor, and no other stride. The autotuned kernel is
  launched only with \<^verbatim>\<open>use_int16 = False\<close>, and then \<^verbatim>\<open>USE_INT8_WEIGHT\<close> is false:
  the conversion of line 138 is never run by a launch of \<^verbatim>\<open>matmul\<close>.
\<close>

theorem int16_path_launches_precompiled_kernel:
  "(\<forall>g cfg ka. LaunchJit g cfg ka \<notin> set (fst (matmul e a b True)))
   \<and> (is_contiguous a \<and> loadable e int16_ttgir \<longrightarrow>
        matmul e a b True =
          ([Empty (torch_empty e (shape0 a) (shape1 b)),
            Compile ''/home/dberard/local/scripts/triton/int8mm/int16.ttgir'',
            LaunchCompiled ''/home/dberard/local/scripts/triton/int8mm/int16.ttgir''
              (cdiv (shape0 a) 128 * cdiv (shape1 b) 256, 1, 1)
              [TensorArg a, TensorArg b, TensorArg (torch_empty e (shape0 a) (shape1 b)),
               IntArg (int (shape0 a)), IntArg (int (shape1 b)), IntArg (int (shape1 a)),
               IntArg (stride0 a), IntArg (stride0 b),
               IntArg (stride0 (torch_empty e (shape0 a) (shape1 b)))]],
           Inr (torch_empty e (shape0 a) (shape1 b))))
   \<and> (\<forall>use_int16 g cfg ka. LaunchJit g cfg ka \<in> set (fst (matmul e a b use_int16))
         \<longrightarrow> \<not> use_int16 \<and> \<not> USE_INT8_WEIGHT ka
             \<and> dequantize cvt (USE_INT8_WEIGHT ka) blk = blk)"
proof (intro conjI allI impI)
  fix g cfg ka
  show "LaunchJit g cfg ka \<notin> set (fst (matmul e a b True))"
    by (rule matmul_int16_no_jit)
next
  assume "is_contiguous a \<and> loadable e int16_ttgir"
  then have c: "is_contiguous a" and l: "loadable e int16_ttgir" by simp_all
  show "matmul e a b True =
          ([Empty (torch_empty e (shape0 a) (shape1 b)),
            Compile ''/home/dberard/local/scripts/triton/int8mm/int16.ttgir'',
            LaunchCompiled ''/home/dberard/local/scripts/triton/int8mm/int16.ttgir''
              (cdiv (shape0 a) 128 * cdiv (shape1 b) 256, 1, 1)
              [TensorArg a, TensorArg b, TensorArg (torch_empty e (shape0 a) (shape1 b)),
               IntArg (int (shape0 a)), IntArg (int (shape1 b)), IntArg (int (shape1 a)),
               IntArg (stride0 a), IntArg (stride0 b),
               IntArg (stride0 (torch_empty e (shape0 a) (shape1 b)))]],
           Inr (torch_empty e (shape0 a) (shape1 b)))"
    using matmul_int16 [OF c l] unfolding int16_ttgir_def .
next
  fix use_int16 g cfg ka
  assume j: "LaunchJit g cfg ka \<in> set (fst (matmul e a b use_int16))"
  from matmul_jit_flag [OF j] show "\<not> use_int16" and k: "\<not> USE_INT8_WEIGHT ka" by simp_all
  from k show "dequantize cvt (USE_INT8_WEIGHT ka) blk = blk" by (simp add: dequantize_def)
qed

text \<open>The call on the \<open>2 \<times> 64\<close> and \<open>64 \<times> 5\<close> tensors, on both paths.\<close>

theorem int16_path_witness:
  "is_contiguous example_a \<and> loadable example_env int16_ttgir
   \<and> matmul example_env example_a example_b True =
       ([Empty (torch_empty example_env 2 5),
         Compile ''/home/dberard/local/scripts/triton/int8mm/int16.ttgir'',
         LaunchCompiled ''/home/dberard/local/scripts/triton/int8mm/int16.ttgir'' (1, 1, 1)
           [TensorArg example_a, TensorArg example_b, TensorArg (torch_empty example_env 2 5),
            IntArg 2, IntArg 5, IntArg 64, IntArg 64, IntArg 5, IntArg 5]],
        Inr (torch_empty example_env 2 5))
   \<and> (\<exists>ka. LaunchJit 1 (autotuned AUTOTUNE_CONFIGS) ka
               \<in> set (fst (matmul example_env example_a example_b False))
           \<and> \<not> USE_INT8_WEIGHT ka)"
proof -
  have c: "is_contiguous example_a"
    by (simp add: is_contiguous_def example_a_def)
  have l: "loadable example_env int16_ttgir"
    by (simp add: example_env_def)
  have s: "shape0 example_a = 2" "shape1 example_a = 64" "shape1 example_b = 5"
    "stride0 example_a = 64" "stride0 example_b = 5" "stride0 (torch_empty example_env 2 5) = 5"
    "cdiv 2 128 * cdiv 5 256 = 1" "grid 2 5 (autotuned AUTOTUNE_CONFIGS) = 1"
    by (simp_all add: example_a_def example_b_def torch_empty_def cdiv_def grid_def
          autotuned_def AUTOTUNE_CONFIGS_def)
  note th = int16_path_launches_precompiled_kernel [of example_env example_a example_b sint "Int8 []"]
  from th c l have pre: "matmul example_env example_a example_b True =
       ([Empty (torch_empty example_env 2 5),
         Compile ''/home/dberard/local/scripts/triton/int8mm/int16.ttgir'',
         LaunchCompiled ''/home/dberard/local/scripts/triton/int8mm/int16.ttgir'' (1, 1, 1)
           [TensorArg example_a, TensorArg example_b, TensorArg (torch_empty example_env 2 5),
            IntArg 2, IntArg 5, IntArg 64, IntArg 64, IntArg 5, IntArg 5]],
        Inr (torch_empty example_env 2 5))"
    by (simp add: s)
  obtain ka where j: "LaunchJit 1 (autotuned AUTOTUNE_CONFIGS) ka
               \<in> set (fst (matmul example_env example_a example_b False))"
    unfolding matmul_jit(1) [OF c] s by auto
  with th have "\<not> USE_INT8_WEIGHT ka" by blast
  with c l pre j show ?thesis by blast
qed

section \<open>A reduction depth that the block size does not divide\<close>

lemma dispatch_asserts:
  assumes "dim_K ka mod BLOCK_SIZE_K cfg \<noteq> 0"
  shows "matmul_kernel True ka cfg pid = Inl DeviceAssertion"
    and "dispatch True n ka cfg = replicate n (Inl DeviceAssertion)"
proof -
  show one: "matmul_kernel True ka cfg p = Inl DeviceAssertion" for p
    using assms by (simp add: matmul_kernel_def)
  have "dispatch True n ka cfg = map (\<lambda>p. Inl DeviceAssertion) [0..<n]"
    unfolding dispatch_def by (simp add: one)
  also have "\<dots> = replicate n (Inl DeviceAssertion)"
    by (simp add: map_replicate_const)
  finally show "dispatch True n ka cfg = replicate n (Inl DeviceAssertion)" .
qed

text \<open>
  C8, as the code has it: the check of \<open>K mod BLOCK_SIZE_K = 0\<close> is the device-side
  assertion at the entry of the kernel body. Where device assertions are in effect, every
  instance of the dispatch fails it before any load or store, so no tile is written. The
  host driver makes no such check before the launch: for a contiguous \<^verbatim>\<open>a\<close> whose
  column count the block size does not divide it launches the kernel all the same.
  Where device assertions are not in effect, the instances run and store their tiles.
\<close>

theorem k_not_divisible_every_instance_asserts:
  "(dim_K ka mod BLOCK_SIZE_K cfg \<noteq> 0 \<longrightarrow>
      matmul_kernel True ka cfg pid = Inl DeviceAssertion
      \<and> dispatch True n ka cfg = replicate n (Inl DeviceAssertion)
      \<and> (\<exists>fp. matmul_kernel False ka cfg pid = Inr fp \<and> writes_c fp = c_stores ka cfg pid))
   \<and> (is_contiguous a \<and> shape1 a mod BLOCK_SIZE_K (autotuned AUTOTUNE_CONFIGS) \<noteq> 0 \<longrightarrow>
        (\<exists>g ka' evs. fst (matmul e a b False)
            = Empty (torch_empty e (shape0 a) (shape1 b))
              # LaunchJit g (autotuned AUTOTUNE_CONFIGS) ka' # evs
          \<and> dim_K ka' = shape1 a
          \<and> dispatch True g ka' (autotuned AUTOTUNE_CONFIGS) = replicate g (Inl DeviceAssertion)))"
proof (intro conjI impI)
  assume K: "dim_K ka mod BLOCK_SIZE_K cfg \<noteq> 0"
  show "matmul_kernel True ka cfg pid = Inl DeviceAssertion"
    using K by (rule dispatch_asserts(1))
  show "dispatch True n ka cfg = replicate n (Inl DeviceAssertion)"
    using K by (rule dispatch_asserts(2))
  show "\<exists>fp. matmul_kernel False ka cfg pid = Inr fp \<and> writes_c fp = c_stores ka cfg pid"
    by (simp add: matmul_kernel_def Let_def)
next
  assume "is_contiguous a \<and> shape1 a mod BLOCK_SIZE_K (autotuned AUTOTUNE_CONFIGS) \<noteq> 0"
  then have c: "is_contiguous a"
    and K: "shape1 a mod BLOCK_SIZE_K (autotuned AUTOTUNE_CONFIGS) \<noteq> 0" by simp_all
  show "\<exists>g ka' evs. fst (matmul e a b False)
            = Empty (torch_empty e (shape0 a) (shape1 b))
              # LaunchJit g (autotuned AUTOTUNE_CONFIGS) ka' # evs
          \<and> dim_K ka' = shape1 a
          \<and> dispatch True g ka' (autotuned AUTOTUNE_CONFIGS) = replicate g (Inl DeviceAssertion)"
    unfolding matmul_jit(1) [OF c]
    by (intro exI conjI) (rule refl, simp, rule dispatch_asserts(2), simp add: K)
qed

text \<open>
  \<open>K = 1\<close> with \<open>BLOCK_SIZE_K = 2\<close> in the kernel, and \<open>K = 4\<close> with the
  autotuned \<open>BLOCK_SIZE_K = 64\<close> in \<^verbatim>\<open>matmul\<close>.
\<close>

theorem k_not_divisible_witness:
  "dim_K small_args mod BLOCK_SIZE_K small_config \<noteq> 0
   \<and> matmul_kernel True small_args small_config 0 = Inl DeviceAssertion
   \<and> dispatch True 1 small_args small_config = [Inl DeviceAssertion]
   \<and> is_contiguous narrow_a
   \<and> shape1 narrow_a mod BLOCK_SIZE_K (autotuned AUTOTUNE_CONFIGS) \<noteq> 0
   \<and> (\<exists>g ka' evs. fst (matmul example_env narrow_a narrow_b False)
          = Empty (torch_empty example_env 2 5) # LaunchJit g (autotuned AUTOTUNE_CONFIGS) ka' # evs
        \<and> dim_K ka' = 4
        \<and> dispatch True g ka' (autotuned AUTOTUNE_CONFIGS) = replicate g (Inl DeviceAssertion))"
proof -
  have h: "dim_K small_args mod BLOCK_SIZE_K small_config \<noteq> 0"
    by (simp add: small_args_def small_config_def)
  have c: "is_contiguous narrow_a"
    by (simp add: is_contiguous_def narrow_a_def)
  have s: "shape0 narrow_a = 2" "shape1 narrow_a = 4" "shape1 narrow_b = 5"
    by (simp_all add: narrow_a_def narrow_b_def)
  have k: "shape1 narrow_a mod BLOCK_SIZE_K (autotuned AUTOTUNE_CONFIGS) \<noteq> 0"
    by (simp add: s autotuned_def AUTOTUNE_CONFIGS_def)
  note th = k_not_divisible_every_instance_asserts
      [of small_args small_config 0 1 narrow_a example_env narrow_b]
  from th h have kernel: "matmul_kernel True small_args small_config 0 = Inl DeviceAssertion
      \<and> dispatch True 1 small_args small_config = [Inl DeviceAssertion]"
    by simp
  from th c k have host: "\<exists>g ka' evs. fst (matmul example_env narrow_a narrow_b False)
          = Empty (torch_empty example_env 2 5) # LaunchJit g (autotuned AUTOTUNE_CONFIGS) ka' # evs
        \<and> dim_K ka' = 4
        \<and> dispatch True g ka' (autotuned AUTOTUNE_CONFIGS) = replicate g (Inl DeviceAssertion)"
    unfolding s by blast
  from h kernel c k host show ?thesis by blast
qed

text \<open>
  The claim C8 as the spec states it, that a dispatch with \<open>K mod BLOCK_SIZE_K \<noteq> 0\<close>
  aborts as a whole and writes nothing, is false where device assertions are not in
  effect: the one instance of the \<open>1 \<times> 1\<close> example runs its step, reads one address
  past the weight tensor and stores its cell.
\<close>

theorem k_not_divisible_runs_without_device_asserts:
  "dim_K small_args mod BLOCK_SIZE_K small_config \<noteq> 0
   \<and> grid (dim_M small_args) (dim_N small_args) small_config = 1
   \<and> dispatch False 1 small_args small_config
        = [Inr \<lparr>reads_a = [1000], reads_b = [2000, 2001], writes_c = [3000]\<rparr>]"
  by code_simp

section \<open>Dequantization\<close>

text \<open>
  C3, as the code has it: the loop extracts no nibbles. With \<^verbatim>\<open>USE_INT8_WEIGHT\<close> set
  every loaded \<^verbatim>\<open>int8\<close> element is converted to \<^verbatim>\<open>bfloat16\<close> on its own, one
  value for each loaded element; otherwise the loaded block is the operand of the product
  as it is. The block keeps its shape in both cases.
\<close>

theorem dequantize_elementwise:
  "dequantize cvt True (Int8 x) = Bfloat16 (map (map cvt) x)
   \<and> dequantize cvt True (Bfloat16 y) = Bfloat16 y
   \<and> dequantize cvt False b = b
   \<and> block_rows (dequantize cvt use b) = block_rows b
   \<and> block_row_lengths (dequantize cvt use b) = block_row_lengths b"
  by (cases b) (simp_all add: dequantize_def to_bfloat16_def block_rows_def block_row_lengths_def o_def)

text \<open>
  The claim C3 as the spec states it is false for the byte \<open>0xE1\<close>: the spec's
  dequantization gives the two values \<open>1\<close> and \<open>-2\<close> in two rows, and the kernel
  gives the one value \<open>-31\<close>, or the byte itself.
\<close>

theorem dequantize_is_not_nibble_extraction:
  "dequantize sint True (Int8 [[0xE1]]) = Bfloat16 [[- 31]]
   \<and> dequantize sint False (Int8 [[0xE1]]) = Int8 [[0xE1]]
   \<and> spec_dequantize_packed sint [[0xE1]] = Bfloat16 [[1], [- 2]]
   \<and> dequantize sint True (Int8 [[0xE1]]) \<noteq> spec_dequantize_packed sint [[0xE1]]
   \<and> dequantize sint False (Int8 [[0xE1]]) \<noteq> spec_dequantize_packed sint [[0xE1]]"
  by (simp add: dequantize_def to_bfloat16_def spec_dequantize_packed_def nibble_lo_def nibble_hi_def)

section \<open>The weight packer\<close>

lemma length_concat_table:
  "length (concat (map (\<lambda>i. map (f i) [0..<N]) [0..<K])) = K * N"
  by (induction K) simp_all

lemma nth_concat_table:
  assumes "i < K" "n < N"
  shows "concat (map (\<lambda>i. map (f i) [0..<N]) [0..<K]) ! (i * N + n) = f i n"
  using assms
proof (induction K)
  case 0
  then show ?case by simp
next
  case (Suc K)
  show ?case
  proof (cases "i < K")
    case True
    have "i * N + n < Suc i * N" using Suc.prems(2) by simp
    also have "\<dots> \<le> K * N" using True by (intro mult_le_mono1) simp
    finally show ?thesis
      using Suc.IH [OF True Suc.prems(2)]
      by (simp add: nth_append length_concat_table)
  next
    case False
    then have "i = K" using Suc.prems(1) by simp
    then show ?thesis
      using Suc.prems(2) by (simp add: nth_append length_concat_table)
  qed
qed

lemma length_lane: "length (lane t8 K2 N j) = K2 * N"
  unfolding lane_def by (rule length_concat_table)

lemma nth_lane:
  assumes "i < K2" "n < N"
  shows "lane t8 K2 N j ! (i * N + n) = t8 ! ((i * 2 + j) * N + n)"
  unfolding lane_def using assms by (rule nth_concat_table)

lemma low4: "(x :: 8 word) AND 0xF = take_bit 4 x"
proof -
  have "(0xF :: 8 word) = mask 4" by (simp add: mask_eq_exp_minus_1)
  then show ?thesis by (simp add: take_bit_eq_mask)
qed

lemma pack_byte_uint:
  fixes a b :: int
  shows "uint ((to_int8 a AND 0xF) OR push_bit 4 (to_int8 b)) = a mod 16 + 16 * (b mod 16)"
proof -
  have "uint (take_bit 4 (word_of_int a :: 8 word) OR push_bit 4 (word_of_int b))
          = concat_bit 4 a (take_bit 4 b)"
    by (rule bit_eqI) (auto simp add: bit_simps)
  then show ?thesis
    by (simp add: to_int8_def low4 concat_bit_eq take_bit_eq_mod push_bit_eq_mult)
qed

lemma cell_index_less:
  fixes i n :: nat
  assumes "i < R" "n < N"
  shows "i * N + n < R * N"
proof -
  have "i * N + n < Suc i * N" using assms(2) by simp
  also have "\<dots> \<le> R * N" using assms(1) by (intro mult_le_mono1) simp
  finally show ?thesis .
qed

text \<open>
  C5: for every \<open>K \<times> N\<close> tensor of integers with \<open>K\<close> even, \<^verbatim>\<open>pack_2xint4\<close>
  returns a tensor of shape \<open>(K div 2) \<times> N\<close> that pairs consecutive rows: byte
  \<open>(i, n)\<close> is element \<open>(2 * i, n)\<close> masked to four bits, or-ed with element
  \<open>(2 * i + 1, n)\<close> shifted left by four. No range is checked and nothing is raised for
  a value outside \<open>[-8, 7]\<close>: the byte holds the low four bits of each of the two
  elements, whatever their values.
\<close>

theorem pack_2xint4_pairs_rows:
  assumes ev: "even (rows t)" and wf: "length (elems t) = rows t * cols t"
  shows "\<exists>p. pack_2xint4 t = Inr p \<and> rows p = rows t div 2 \<and> cols p = cols t
           \<and> length (elems p) = rows p * cols p
           \<and> (\<forall>i<rows p. \<forall>n<cols p.
                 at p i n = (to_int8 (at t (2 * i) n) AND 0xF)
                              OR push_bit 4 (to_int8 (at t (2 * i + 1) n))
                 \<and> uint (at p i n) = at t (2 * i) n mod 16 + 16 * (at t (2 * i + 1) n mod 16))"
proof -
  let ?K2 = "rows t div 2" and ?N = "cols t"
  let ?t8 = "map to_int8 (elems t)"
  let ?p = "\<lparr>rows = ?K2, cols = ?N,
             elems = map2 (\<lambda>t0 t1. (t0 AND 0xF) OR (push_bit 4 t1))
                       (lane ?t8 ?K2 ?N 0) (lane ?t8 ?K2 ?N 1)\<rparr>"
  from ev have K: "?K2 * 2 = rows t" by simp
  then have numel: "?K2 * 2 * ?N = length ?t8" using wf by simp
  then have pk: "pack_2xint4 t = Inr ?p"
    by (simp add: pack_2xint4_def Let_def)
  have len: "length (elems ?p) = rows ?p * cols ?p"
    by (simp add: length_lane)
  have cell: "at ?p i n = (to_int8 (at t (2 * i) n) AND 0xF)
                              OR push_bit 4 (to_int8 (at t (2 * i + 1) n))"
    if i: "i < ?K2" and n: "n < ?N" for i n
  proof -
    have idx: "i * ?N + n < ?K2 * ?N" using i n by (rule cell_index_less)
    have r0: "2 * i < rows t" and r1: "2 * i + 1 < rows t" using i K by linarith+
    have "(2 * i) * ?N + n < rows t * ?N" using r0 n by (rule cell_index_less)
    then have in0: "(2 * i) * ?N + n < length (elems t)" by (simp only: wf)
    have "(2 * i + 1) * ?N + n < rows t * ?N" using r1 n by (rule cell_index_less)
    then have in1: "(2 * i + 1) * ?N + n < length (elems t)" by (simp only: wf)
    have "at ?p i n = (lane ?t8 ?K2 ?N 0 ! (i * ?N + n) AND 0xF)
                         OR push_bit 4 (lane ?t8 ?K2 ?N 1 ! (i * ?N + n))"
      using idx by (simp add: at_def length_lane)
    also have "lane ?t8 ?K2 ?N 0 ! (i * ?N + n) = ?t8 ! ((i * 2 + 0) * ?N + n)"
      using i n by (rule nth_lane)
    also have "lane ?t8 ?K2 ?N 1 ! (i * ?N + n) = ?t8 ! ((i * 2 + 1) * ?N + n)"
      using i n by (rule nth_lane)
    also have "?t8 ! ((i * 2 + 0) * ?N + n) = to_int8 (at t (2 * i) n)"
      using in0 by (simp add: at_def mult.commute)
    also have "?t8 ! ((i * 2 + 1) * ?N + n) = to_int8 (at t (2 * i + 1) n)"
      using in1 by (simp add: at_def mult.commute)
    finally show ?thesis .
  qed
  have cells: "\<forall>i<rows ?p. \<forall>n<cols ?p.
          at ?p i n = (to_int8 (at t (2 * i) n) AND 0xF)
                              OR push_bit 4 (to_int8 (at t (2 * i + 1) n))
          \<and> uint (at ?p i n) = at t (2 * i) n mod 16 + 16 * (at t (2 * i + 1) n mod 16)"
    using cell by (simp add: pack_byte_uint)
  have r: "rows ?p = rows t div 2" and c: "cols ?p = cols t" by simp_all
  show ?thesis
    using pk r c len cells by (intro exI [of _ ?p] conjI)
qed

text \<open>
  A tensor with two values out of range: \<open>100\<close> and \<open>23\<close> pack to
  \<open>4 + 16 * 7 = 116\<close>, and \<open>-9\<close> and \<open>7\<close> to \<open>7 + 16 * 7 = 119\<close>.
\<close>

theorem pack_2xint4_pairs_rows_witness:
  "even (rows \<lparr>rows = 2, cols = 2, elems = [100, - 9, 23, 7 :: int]\<rparr>)
   \<and> length (elems \<lparr>rows = 2, cols = 2, elems = [100, - 9, 23, 7 :: int]\<rparr>)
       = rows \<lparr>rows = 2, cols = 2, elems = [100, - 9, 23, 7 :: int]\<rparr>
         * cols \<lparr>rows = 2, cols = 2, elems = [100, - 9, 23, 7 :: int]\<rparr>
   \<and> (\<exists>p. pack_2xint4 \<lparr>rows = 2, cols = 2, elems = [100, - 9, 23, 7]\<rparr> = Inr p
          \<and> rows p = 1 \<and> cols p = 2
          \<and> uint (at p 0 0) = 116 \<and> uint (at p 0 1) = 119)"
proof -
  let ?t = "\<lparr>rows = 2, cols = 2, elems = [100, - 9, 23, 7 :: int]\<rparr>"
  have ev: "even (rows ?t)" and wf: "length (elems ?t) = rows ?t * cols ?t" by simp_all
  from pack_2xint4_pairs_rows [OF ev wf] obtain p where
    p: "pack_2xint4 ?t = Inr p" "rows p = rows ?t div 2" "cols p = cols ?t"
    and cells: "\<forall>i<rows p. \<forall>n<cols p.
        uint (at p i n) = at ?t (2 * i) n mod 16 + 16 * (at ?t (2 * i + 1) n mod 16)"
    by blast
  from p have r: "rows p = 1" and c: "cols p = 2" by simp_all
  from cells r c have "uint (at p 0 0) = at ?t (2 * 0) 0 mod 16 + 16 * (at ?t (2 * 0 + 1) 0 mod 16)"
    and "uint (at p 0 1) = at ?t (2 * 0) 1 mod 16 + 16 * (at ?t (2 * 0 + 1) 1 mod 16)"
    by simp_all
  then have "uint (at p 0 0) = 116" and "uint (at p 0 1) = 119"
    by (simp_all add: at_def)
  with p r c ev wf show ?thesis by blast
qed

text \<open>
  C4, as the code has it: the \<open>4 \<times> 2\<close> tensor of the scenario packs to the
  \<open>2 \<times> 2\<close> tensor of the bytes \<open>0x31\<close>, \<open>0xCE\<close>, \<open>0x75\<close>, \<open>0x8A\<close>. Entry
  \<open>[0][0]\<close> is \<open>0x31\<close>: its low nibble is \<open>1\<close>, element \<open>[0][0]\<close> of the input,
  and its high nibble is \<open>3\<close>, element \<open>[1][0]\<close>, since the packer pairs rows, not
  columns. Unpacking the result gives the input back.
\<close>

theorem pack_scenario:
  "pack_2xint4 \<lparr>rows = 4, cols = 2, elems = [1, - 2, 3, - 4, 5, - 6, 7, - 8]\<rparr>
     = Inr \<lparr>rows = 2, cols = 2, elems = [0x31, 0xCE, 0x75, 0x8A]\<rparr>
   \<and> at \<lparr>rows = 2, cols = 2, elems = [0x31, 0xCE, 0x75, 0x8A :: 8 word]\<rparr> 0 0 = 0x31
   \<and> sint (nibble_lo 0x31) = 1 \<and> sint (nibble_hi 0x31) = 3
   \<and> rows (unpack_2xint4 \<lparr>rows = 2, cols = 2, elems = [0x31, 0xCE, 0x75, 0x8A]\<rparr>) = 4
   \<and> cols (unpack_2xint4 \<lparr>rows = 2, cols = 2, elems = [0x31, 0xCE, 0x75, 0x8A]\<rparr>) = 2
   \<and> map sint (elems (unpack_2xint4 \<lparr>rows = 2, cols = 2, elems = [0x31, 0xCE, 0x75, 0x8A]\<rparr>))
       = [1, - 2, 3, - 4, 5, - 6, 7, - 8]"
  by code_simp

text \<open>
  The claim C4 as the spec states it, that entry \<open>[0][0]\<close> of the packed tensor is
  \<open>0xE1\<close>, is false.
\<close>

theorem pack_scenario_byte_is_not_E1:
  "\<not> (\<exists>p. pack_2xint4 \<lparr>rows = 4, cols = 2, elems = [1, - 2, 3, - 4, 5, - 6, 7, - 8]\<rparr> = Inr p
           \<and> at p 0 0 = 0xE1)"
proof -
  have "pack_2xint4 \<lparr>rows = 4, cols = 2, elems = [1, - 2, 3, - 4, 5, - 6, 7, - 8]\<rparr>
          = Inr \<lparr>rows = 2, cols = 2, elems = [0x31, 0xCE, 0x75, 0x8A]\<rparr>"
    by code_simp
  then show ?thesis by (simp add: at_def)
qed

end
